theory Spec2Isabelle
  imports Main "HOL-Library.Word"
begin

unbundle bit_operations_syntax

section \<open>The drmprime-wayland hardware-decode driver\<close>

text \<open>
  A shallow embedding of \<^verbatim>\<open>video/out/opengl/hwdec_drmprime_wayland.c\<close>: the driver
  that turns a decoded DRM-PRIME frame into a \<^verbatim>\<open>wl_buffer\<close> through the
  linux-dmabuf protocol and attaches it to a video surface.

  The C functions talk to a Wayland server through libwayland. The embedding makes that
  explicit: a \<open>world\<close> value holds the requests issued so far (in order) and the
  part of the protocol state the driver can change (which surface objects are alive, which
  buffer each surface has attached and committed). Every value the environment
  chooses (what \<^verbatim>\<open>malloc\<close> returns, which event the server answers with, which
  proxy a constructor returns) is an explicit argument. A C pointer is a
  \<open>handle option\<close>, \<open>None\<close> being \<^verbatim>\<open>NULL\<close>; dereferencing \<^verbatim>\<open>NULL\<close>,
  indexing an array outside its bounds and using a destroyed object are \<open>fault\<close>
  results, never silently defined behaviour.
\<close>

subsection \<open>Data\<close>

type_synonym handle = nat

datatype fault = Null_deref | Out_of_bounds | Use_after_free

text \<open>\<^verbatim>\<open>struct mp_rect\<close>: four C \<^verbatim>\<open>int\<close>s. The driver subtracts them, so they are
  32-bit words and the subtraction wraps.\<close>

record mp_rect =
  x0 :: "32 word"
  y0 :: "32 word"
  x1 :: "32 word"
  y1 :: "32 word"

text \<open>The frame descriptor of libavutil (\<^verbatim>\<open>hwcontext_drm.h\<close>). C \<^verbatim>\<open>int\<close> fields
  that are only compared, tested or used as an index are \<open>int\<close>; \<^verbatim>\<open>ptrdiff_t\<close>
  fields are 64-bit words (they are narrowed to \<^verbatim>\<open>uint32_t\<close> when passed on). The
  fixed-size arrays are lists; a read outside a list is \<open>Out_of_bounds\<close>.\<close>

record AVDRMObjectDescriptor =
  fd :: int
  obj_size :: nat
  format_modifier :: "64 word"

record AVDRMPlaneDescriptor =
  object_index :: int
  offset :: "64 word"
  pitch :: "64 word"

record AVDRMLayerDescriptor =
  format :: "32 word"
  nb_planes :: int
  planes :: "AVDRMPlaneDescriptor list"

record AVDRMFrameDescriptor =
  nb_objects :: int
  objects :: "AVDRMObjectDescriptor list"
  nb_layers :: int
  layers :: "AVDRMLayerDescriptor list"

text \<open>\<^verbatim>\<open>struct mp_image\<close>, as far as the driver reads it: \<^verbatim>\<open>planes[0]\<close>, cast to a
  frame descriptor pointer.\<close>

record mp_image =
  img_planes0 :: "AVDRMFrameDescriptor option"

record dmabuf_frame =
  buffer :: "handle option"
  image :: "mp_image option"

text \<open>\<^verbatim>\<open>struct mpv_opengl_cb_wayland_params\<close>, the embedder's handles.\<close>

record mpv_opengl_cb_wayland_params =
  display :: handle
  compositor :: handle
  surface :: handle

record priv =
  plog :: "handle option"
  wayland_params :: "mpv_opengl_cb_wayland_params option"
  registry :: "handle option"
  dmabuf :: "handle option"
  subcompositor :: "handle option"
  video_surface :: "handle option"
  video_subsurface :: "handle option"

record ra_hwdec =
  hw_log :: "handle option"
  hw_priv :: priv

subsection \<open>The protocol, as the driver sees it\<close>

text \<open>One plane of a buffer request: the arguments of
  \<^verbatim>\<open>zwp_linux_buffer_params_v1_add\<close> after the params object.\<close>

record dmabuf_plane =
  plane_fd :: int
  plane_idx :: nat
  plane_offset :: "32 word"
  plane_stride :: "32 word"
  modifier_hi :: "32 word"
  modifier_lo :: "32 word"

text \<open>A params object is only ever reached through the local variable \<^verbatim>\<open>params\<close>,
  so it is modelled by its value: the planes added to it so far.\<close>

type_synonym buffer_params = "dmabuf_plane list"

datatype wl_request =
    Get_registry handle
  | Registry_bind handle nat string nat
  | Display_roundtrip handle
  | Create_surface handle
  | Get_subsurface handle handle handle
  | Subsurface_place_below handle handle
  | Surface_attach handle "handle option" int int
  | Surface_commit handle
  | Surface_destroy handle
  | Subsurface_destroy handle
  | Create_params handle
  | Params_add dmabuf_plane
  | Params_create buffer_params "32 word" "32 word" "32 word" "32 word"
  | Params_destroy

record world =
  requests :: "wl_request list"
  surfaces :: "handle set"
  subsurfaces :: "handle set"
  pending_buffer :: "handle \<Rightarrow> handle option"
  current_buffer :: "handle \<Rightarrow> handle option"

definition send :: "wl_request \<Rightarrow> world \<Rightarrow> world" where
  "send r w = w\<lparr>requests := requests w @ [r]\<rparr>"

text \<open>Reading \<^verbatim>\<open>a[i]\<close> with a C \<^verbatim>\<open>int\<close> index.\<close>

definition array_at :: "'a list \<Rightarrow> int \<Rightarrow> 'a option" where
  "array_at xs i = (if 0 \<le> i \<and> nat i < length xs then Some (xs ! nat i) else None)"

text \<open>The libwayland request stubs. Each marshals through its proxy, so a \<^verbatim>\<open>NULL\<close>
  proxy is a \<open>Null_deref\<close>; a surface or subsurface that was destroyed is a freed
  proxy, and using it is a \<open>Use_after_free\<close>.\<close>

definition wl_display_roundtrip :: "handle \<Rightarrow> world \<Rightarrow> world" where
  "wl_display_roundtrip d w = send (Display_roundtrip d) w"

definition wl_surface_attach :: "handle option \<Rightarrow> handle option \<Rightarrow> int \<Rightarrow> int \<Rightarrow> world \<Rightarrow> fault + world" where
  "wl_surface_attach surf buf x y w =
     (case surf of
        None \<Rightarrow> Inl Null_deref
      | Some s \<Rightarrow>
          if s \<in> surfaces w
          then Inr ((send (Surface_attach s buf x y) w)\<lparr>pending_buffer := (pending_buffer w)(s := buf)\<rparr>)
          else Inl Use_after_free)"

definition wl_surface_commit :: "handle option \<Rightarrow> world \<Rightarrow> fault + world" where
  "wl_surface_commit surf w =
     (case surf of
        None \<Rightarrow> Inl Null_deref
      | Some s \<Rightarrow>
          if s \<in> surfaces w
          then Inr ((send (Surface_commit s) w)\<lparr>current_buffer := (current_buffer w)(s := pending_buffer w s)\<rparr>)
          else Inl Use_after_free)"

definition wl_surface_destroy :: "handle \<Rightarrow> world \<Rightarrow> fault + world" where
  "wl_surface_destroy s w =
     (if s \<in> surfaces w
      then Inr ((send (Surface_destroy s) w)\<lparr>surfaces := surfaces w - {s}\<rparr>)
      else Inl Use_after_free)"

definition wl_subsurface_destroy :: "handle \<Rightarrow> world \<Rightarrow> fault + world" where
  "wl_subsurface_destroy s w =
     (if s \<in> subsurfaces w
      then Inr ((send (Subsurface_destroy s) w)\<lparr>subsurfaces := subsurfaces w - {s}\<rparr>)
      else Inl Use_after_free)"

definition zwp_linux_dmabuf_v1_create_params :: "handle option \<Rightarrow> world \<Rightarrow> fault + (buffer_params \<times> world)" where
  "zwp_linux_dmabuf_v1_create_params dmabuf_proxy w =
     (case dmabuf_proxy of
        None \<Rightarrow> Inl Null_deref
      | Some d \<Rightarrow> Inr ([], send (Create_params d) w))"

definition zwp_linux_buffer_params_v1_add ::
  "buffer_params \<Rightarrow> int \<Rightarrow> nat \<Rightarrow> 32 word \<Rightarrow> 32 word \<Rightarrow> 32 word \<Rightarrow> 32 word \<Rightarrow> world \<Rightarrow> buffer_params \<times> world" where
  "zwp_linux_buffer_params_v1_add params f idx off stride hi lo w =
     (let e = \<lparr>plane_fd = f, plane_idx = idx, plane_offset = off, plane_stride = stride,
                modifier_hi = hi, modifier_lo = lo\<rparr>
      in (params @ [e], send (Params_add e) w))"

definition zwp_linux_buffer_params_v1_create ::
  "buffer_params \<Rightarrow> 32 word \<Rightarrow> 32 word \<Rightarrow> 32 word \<Rightarrow> 32 word \<Rightarrow> world \<Rightarrow> world" where
  "zwp_linux_buffer_params_v1_create params width height fmt flags w =
     send (Params_create params width height fmt flags) w"

definition zwp_linux_buffer_params_v1_destroy :: "world \<Rightarrow> world" where
  "zwp_linux_buffer_params_v1_destroy w = send Params_destroy w"

subsection \<open>The buffer-creation listener\<close>

text \<open>\<^verbatim>\<open>param_create_succeeded\<close> and \<^verbatim>\<open>param_create_failed\<close>: the handlers of the two
  events a params object answers \<^verbatim>\<open>create\<close> with. Both write the buffer slot of the
  block and destroy the params object. (Registering a listener, on the params object or on
  the new buffer, sends nothing.)\<close>

definition param_create_succeeded :: "dmabuf_frame \<Rightarrow> handle \<Rightarrow> world \<Rightarrow> dmabuf_frame \<times> world" where
  "param_create_succeeded frame new_buffer w =
     (frame\<lparr>buffer := Some new_buffer\<rparr>, zwp_linux_buffer_params_v1_destroy w)"

definition param_create_failed :: "dmabuf_frame \<Rightarrow> world \<Rightarrow> dmabuf_frame \<times> world" where
  "param_create_failed frame w =
     (frame\<lparr>buffer := None\<rparr>, zwp_linux_buffer_params_v1_destroy w)"

text \<open>What the environment decides during one call of \<^verbatim>\<open>overlay_frame\<close>, per layer
  index: the block \<^verbatim>\<open>malloc\<close> returns (\<open>None\<close> for \<^verbatim>\<open>NULL\<close>; a fresh block holds
  whatever the environment put there) and the event the server answers the
  \<^verbatim>\<open>create\<close> request with.\<close>

datatype create_event = Created handle | Failed

record overlay_env =
  malloc_ret :: "nat \<Rightarrow> dmabuf_frame option"
  create_reply :: "nat \<Rightarrow> create_event"

text \<open>The round-trip after \<^verbatim>\<open>create\<close>: the request is flushed and the server's answer,
  one of the two events as the protocol prescribes, is dispatched to the listener
  registered with \<^verbatim>\<open>frame\<close> as its data. The same round-trip may also deliver release
  events for buffers of earlier frames; their handler \<^verbatim>\<open>buffer_release\<close> destroys that
  older buffer and frees its block, touches neither a params object nor a surface, and is
  left out of this model.\<close>

definition roundtrip_dispatch :: "handle \<Rightarrow> create_event \<Rightarrow> dmabuf_frame \<Rightarrow> world \<Rightarrow> dmabuf_frame \<times> world" where
  "roundtrip_dispatch d ev frame w =
     (case ev of
        Created b \<Rightarrow> param_create_succeeded frame b (wl_display_roundtrip d w)
      | Failed \<Rightarrow> param_create_failed frame (wl_display_roundtrip d w))"

subsection \<open>overlay_frame\<close>

text \<open>The inner loop, \<^verbatim>\<open>for (plane = 0; plane < AV_DRM_MAX_PLANES; plane++)\<close>. The
  constant is libavutil's and is the first argument, \<open>max_planes\<close>.\<close>

function plane_loop ::
  "nat \<Rightarrow> AVDRMFrameDescriptor \<Rightarrow> AVDRMLayerDescriptor \<Rightarrow> 64 word \<Rightarrow> nat \<Rightarrow> buffer_params \<Rightarrow> world
     \<Rightarrow> fault + (buffer_params \<times> world)" where
  "plane_loop max_planes desc layer modifier plane params w =
     (if plane < max_planes then
        (case array_at (planes layer) (int plane) of
           None \<Rightarrow> Inl Out_of_bounds
         | Some pl \<Rightarrow>
             (case array_at (objects desc) (object_index pl) of
                None \<Rightarrow> Inl Out_of_bounds
              | Some obj \<Rightarrow>
                  if fd obj \<noteq> 0 \<and> pitch pl \<noteq> 0 then
                    (case zwp_linux_buffer_params_v1_add params (fd obj) plane
                            (ucast (offset pl)) (ucast (pitch pl))
                            (ucast (drop_bit 32 modifier)) (ucast (modifier AND 0xffffffff)) w of
                       (params', w') \<Rightarrow> plane_loop max_planes desc layer modifier (Suc plane) params' w')
                  else plane_loop max_planes desc layer modifier (Suc plane) params w))
      else Inr (params, w))"
  by pat_completeness auto
termination
  by (relation "measure (\<lambda>(max_planes, desc, layer, modifier, plane, params, w). max_planes - plane)") auto

declare plane_loop.simps [simp del]

text \<open>One turn of the outer loop over the layers. \<open>Next\<close> goes on with the next
  layer; \<open>Fail\<close> is \<^verbatim>\<open>ret = -1; goto fail\<close>. After a successful creation the C code
  also stores a reference to the image in the listener's block
  (\<^verbatim>\<open>frame->image = mp_image_new_ref(hw_image)\<close>) and on failure frees the block; both only
  touch client memory that no request reads, and the world does not hold it.\<close>

datatype turn = Next world | Fail int world

definition layer_turn ::
  "nat \<Rightarrow> ra_hwdec \<Rightarrow> mp_rect option \<Rightarrow> AVDRMFrameDescriptor \<Rightarrow> 64 word \<Rightarrow> 32 word
     \<Rightarrow> overlay_env \<Rightarrow> nat \<Rightarrow> world \<Rightarrow> fault + turn" where
  "layer_turn max_planes hw src desc modifier flags env l w =
     (let p = hw_priv hw in
      case array_at (layers desc) (int l) of
        None \<Rightarrow> Inl Out_of_bounds
      | Some layer \<Rightarrow>
          (case zwp_linux_dmabuf_v1_create_params (dmabuf p) w of
             Inl f \<Rightarrow> Inl f
           | Inr (params0, w1) \<Rightarrow>
               (case plane_loop max_planes desc layer modifier 0 params0 w1 of
                  Inl f \<Rightarrow> Inl f
                | Inr (params, w2) \<Rightarrow>
                    (case malloc_ret env l of
                       None \<Rightarrow> Inr (Fail (- 1) w2)
                     | Some frame \<Rightarrow>
                         (case src of
                            None \<Rightarrow> Inl Null_deref
                          | Some r \<Rightarrow>
                              (let w3 = zwp_linux_buffer_params_v1_create params
                                          (x1 r - x0 r) (y1 r - y0 r) (format layer) flags w2
                               in case wayland_params p of
                                    None \<Rightarrow> Inl Null_deref
                                  | Some wp \<Rightarrow>
                                      (case roundtrip_dispatch (display wp) (create_reply env l) frame w3 of
                                         (frame', w4) \<Rightarrow>
                                           (case buffer frame' of
                                              Some b \<Rightarrow>
                                                (case wl_surface_attach (video_surface p) (Some b) 0 0 w4 of
                                                   Inl f \<Rightarrow> Inl f
                                                 | Inr w5 \<Rightarrow>
                                                     (case wl_surface_commit (video_surface p) w5 of
                                                        Inl f \<Rightarrow> Inl f
                                                      | Inr w6 \<Rightarrow> Inr (Next w6)))
                                            | None \<Rightarrow> Inr (Fail (- 1) w4)))))))))"

text \<open>The outer loop, \<^verbatim>\<open>for (l = 0; l < desc->nb_layers; l++)\<close>, and the return
  after it.\<close>

function layer_loop ::
  "nat \<Rightarrow> ra_hwdec \<Rightarrow> mp_rect option \<Rightarrow> AVDRMFrameDescriptor \<Rightarrow> 64 word \<Rightarrow> 32 word
     \<Rightarrow> overlay_env \<Rightarrow> nat \<Rightarrow> world \<Rightarrow> fault + (int \<times> world)" where
  "layer_loop max_planes hw src desc modifier flags env l w =
     (if int l < nb_layers desc then
        (case layer_turn max_planes hw src desc modifier flags env l w of
           Inl f \<Rightarrow> Inl f
         | Inr (Fail ret w') \<Rightarrow> Inr (ret, w')
         | Inr (Next w') \<Rightarrow> layer_loop max_planes hw src desc modifier flags env (Suc l) w')
      else Inr (0, w))"
  by pat_completeness auto
termination
  by (relation "measure (\<lambda>(max_planes, hw, src, desc, modifier, flags, env, l, w).
                   nat (nb_layers desc) - l)") auto

declare layer_loop.simps [simp del]

definition overlay_frame ::
  "nat \<Rightarrow> ra_hwdec \<Rightarrow> mp_image option \<Rightarrow> mp_rect option \<Rightarrow> mp_rect option \<Rightarrow> bool
     \<Rightarrow> overlay_env \<Rightarrow> world \<Rightarrow> fault + (int \<times> world)" where
  "overlay_frame max_planes hw hw_image src dst newframe env w =
     (let p = hw_priv hw in
      case hw_image of
        Some img \<Rightarrow>
          (case img_planes0 img of
             Some desc \<Rightarrow> layer_loop max_planes hw src desc 0 0 env 0 w
           | None \<Rightarrow> Inr (0, w))
      | None \<Rightarrow>
          (case wl_surface_attach (video_surface p) None 0 0 w of
             Inl f \<Rightarrow> Inl f
           | Inr w1 \<Rightarrow>
               (case wl_surface_commit (video_surface p) w1 of
                  Inl f \<Rightarrow> Inl f
                | Inr w2 \<Rightarrow> Inr (0, w2))))"

subsection \<open>uninit\<close>

text \<open>\<^verbatim>\<open>uninit\<close> reads the two object pointers and never writes them: the driver state
  is the same before and after, only the world changes.\<close>

definition uninit :: "ra_hwdec \<Rightarrow> world \<Rightarrow> fault + world" where
  "uninit hw w =
     (let p = hw_priv hw in
      case (case video_surface p of Some s \<Rightarrow> wl_surface_destroy s w | None \<Rightarrow> Inr w) of
        Inl f \<Rightarrow> Inl f
      | Inr w1 \<Rightarrow>
          (case (case video_subsurface p of Some ss \<Rightarrow> wl_subsurface_destroy ss w1 | None \<Rightarrow> Inr w1) of
             Inl f \<Rightarrow> Inl f
           | Inr w2 \<Rightarrow>
               (case wayland_params p of
                  None \<Rightarrow> Inl Null_deref
                | Some wp \<Rightarrow> Inr (wl_display_roundtrip (display wp) w2))))"

subsection \<open>init\<close>

text \<open>What the environment decides during \<^verbatim>\<open>init\<close>: the results of
  \<^verbatim>\<open>ra_gl_get\<close> and \<^verbatim>\<open>mpgl_get_native_display\<close>, the registry proxy, the globals
  the server advertises in the first round-trip (name, interface, version), the proxy
  \<^verbatim>\<open>wl_registry_bind\<close> returns for a global, and the proxies the two constructors
  return (\<open>None\<close> when they fail).\<close>

record init_env =
  gl_ret :: "handle option"
  native_display_ret :: "mpv_opengl_cb_wayland_params option"
  get_registry_ret :: "handle option"
  globals :: "(nat \<times> string \<times> nat) list"
  bind_ret :: "nat \<Rightarrow> handle option"
  create_surface_ret :: "handle option"
  get_subsurface_ret :: "handle option"

definition wl_registry_bind :: "handle \<Rightarrow> nat \<Rightarrow> string \<Rightarrow> nat \<Rightarrow> handle option \<Rightarrow> world \<Rightarrow> handle option \<times> world" where
  "wl_registry_bind reg name interface ver ret w = (ret, send (Registry_bind reg name interface ver) w)"

definition wl_compositor_create_surface :: "handle \<Rightarrow> handle option \<Rightarrow> world \<Rightarrow> handle option \<times> world" where
  "wl_compositor_create_surface cproxy ret w =
     (case ret of
        None \<Rightarrow> (None, w)
      | Some s \<Rightarrow>
          (Some s, (send (Create_surface cproxy) w)
             \<lparr>surfaces := insert s (surfaces w),
              pending_buffer := (pending_buffer w)(s := None),
              current_buffer := (current_buffer w)(s := None)\<rparr>))"

definition wl_subcompositor_get_subsurface ::
  "handle option \<Rightarrow> handle option \<Rightarrow> handle \<Rightarrow> handle option \<Rightarrow> world \<Rightarrow> fault + (handle option \<times> world)" where
  "wl_subcompositor_get_subsurface subcomp surf parent ret w =
     (case subcomp of
        None \<Rightarrow> Inl Null_deref
      | Some sc \<Rightarrow>
          (case surf of
             None \<Rightarrow> Inl Null_deref
           | Some s \<Rightarrow>
               if s \<in> surfaces w then
                 (case ret of
                    None \<Rightarrow> Inr (None, w)
                  | Some ss \<Rightarrow>
                      Inr (Some ss, (send (Get_subsurface sc s parent) w)\<lparr>subsurfaces := insert ss (subsurfaces w)\<rparr>))
               else Inl Use_after_free))"

definition wl_subsurface_place_below :: "handle option \<Rightarrow> handle \<Rightarrow> world \<Rightarrow> fault + world" where
  "wl_subsurface_place_below subsurf sibling w =
     (case subsurf of
        None \<Rightarrow> Inl Null_deref
      | Some ss \<Rightarrow>
          if ss \<in> subsurfaces w then Inr (send (Subsurface_place_below ss sibling) w)
          else Inl Use_after_free)"

text \<open>\<^verbatim>\<open>registry_handle_add\<close>. \<^verbatim>\<open>found\<close> starts at 1 and \<^verbatim>\<open>found++\<close> is only
  evaluated after a name matched, so each conjunction is true exactly when the name
  matches. Adding the dmabuf listener goes through the proxy just bound.\<close>

definition registry_handle_add ::
  "priv \<Rightarrow> handle \<Rightarrow> nat \<Rightarrow> string \<Rightarrow> nat \<Rightarrow> (nat \<Rightarrow> handle option) \<Rightarrow> world \<Rightarrow> fault + (priv \<times> world)" where
  "registry_handle_add p reg name interface ver binds w =
     (let found = (1 :: int);
          (found1, p1, w1) =
            (if interface = ''wl_subcompositor'' \<and> found \<noteq> 0 then
               (case wl_registry_bind reg name ''wl_subcompositor'' 1 (binds name) w of
                  (proxy, w') \<Rightarrow> (found + 1, p\<lparr>subcompositor := proxy\<rparr>, w'))
             else (found, p, w))
      in if interface = ''zwp_linux_dmabuf_v1'' \<and> found1 \<noteq> 0 then
           (case wl_registry_bind reg name ''zwp_linux_dmabuf_v1'' 1 (binds name) w1 of
              (proxy, w') \<Rightarrow>
                (case proxy of
                   None \<Rightarrow> Inl Null_deref
                 | Some d \<Rightarrow> Inr (p1\<lparr>dmabuf := proxy\<rparr>, w')))
         else Inr (p1, w1))"

text \<open>The first round-trip of \<^verbatim>\<open>init\<close> dispatches one \<^verbatim>\<open>global\<close> event per
  advertised global, in order.\<close>

fun dispatch_globals ::
  "priv \<Rightarrow> handle \<Rightarrow> (nat \<times> string \<times> nat) list \<Rightarrow> (nat \<Rightarrow> handle option) \<Rightarrow> world \<Rightarrow> fault + (priv \<times> world)" where
  "dispatch_globals p reg [] binds w = Inr (p, w)"
| "dispatch_globals p reg ((name, interface, ver) # gs) binds w =
     (case registry_handle_add p reg name interface ver binds w of
        Inl f \<Rightarrow> Inl f
      | Inr (p', w') \<Rightarrow> dispatch_globals p' reg gs binds w')"

text \<open>The \<^verbatim>\<open>err:\<close> label of \<^verbatim>\<open>init\<close>: \<^verbatim>\<open>uninit(hw); return -1;\<close>\<close>

definition init_err :: "ra_hwdec \<Rightarrow> world \<Rightarrow> fault + (int \<times> ra_hwdec \<times> world)" where
  "init_err hw w = (case uninit hw w of Inl f \<Rightarrow> Inl f | Inr w' \<Rightarrow> Inr (- 1, hw, w'))"

definition init :: "ra_hwdec \<Rightarrow> init_env \<Rightarrow> world \<Rightarrow> fault + (int \<times> ra_hwdec \<times> world)" where
  "init hw env w =
     (let p0 = (hw_priv hw)
                 \<lparr>plog := hw_log hw,
                  wayland_params := (case gl_ret env of Some gl \<Rightarrow> native_display_ret env | None \<Rightarrow> None)\<rparr>
      in case wayland_params p0 of
           None \<Rightarrow> init_err (hw\<lparr>hw_priv := p0\<rparr>) w
         | Some wp \<Rightarrow>
             (let p1 = p0\<lparr>registry := get_registry_ret env\<rparr>;
                  w1 = send (Get_registry (display wp)) w
              in case registry p1 of
                   None \<Rightarrow> Inl Null_deref
                 | Some reg \<Rightarrow>
                     (case dispatch_globals p1 reg (globals env) (bind_ret env)
                             (wl_display_roundtrip (display wp) w1) of
                        Inl f \<Rightarrow> Inl f
                      | Inr (p2, w2) \<Rightarrow>
                          (case wl_compositor_create_surface (compositor wp) (create_surface_ret env) w2 of
                             (surf, w3) \<Rightarrow>
                               (let p3 = p2\<lparr>video_surface := surf\<rparr>
                                in case video_surface p3 of
                                     None \<Rightarrow> init_err (hw\<lparr>hw_priv := p3\<rparr>) w3
                                   | Some s \<Rightarrow>
                                       (case wl_subcompositor_get_subsurface (subcompositor p3)
                                               (video_surface p3) (surface wp) (get_subsurface_ret env) w3 of
                                          Inl f \<Rightarrow> Inl f
                                        | Inr (subsurf, w4) \<Rightarrow>
                                            (let p4 = p3\<lparr>video_subsurface := subsurf\<rparr>
                                             in case video_subsurface p4 of
                                                  None \<Rightarrow> init_err (hw\<lparr>hw_priv := p4\<rparr>) w4
                                                | Some ss \<Rightarrow>
                                                    (case wl_subsurface_place_below (video_subsurface p4)
                                                            (surface wp) w4 of
                                                       Inl f \<Rightarrow> Inl f
                                                     | Inr w5 \<Rightarrow> Inr (0, hw\<lparr>hw_priv := p4\<rparr>, w5)))))))))"

text \<open>The driver state the host hands to \<^verbatim>\<open>init\<close>: \<^verbatim>\<open>priv_size\<close> zeroed bytes.\<close>

definition priv_zero :: priv where
  "priv_zero = \<lparr>plog = None, wayland_params = None, registry = None, dmabuf = None,
                 subcompositor = None, video_surface = None, video_subsurface = None\<rparr>"

section \<open>Vocabulary of the properties\<close>

subsection \<open>Well-formed descriptors\<close>

text \<open>A descriptor the driver can read without leaving its arrays: the layers it
  walks exist, each has the \<open>max_planes\<close> plane slots the inner loop scans, and every
  scanned slot's object index points into the object array.\<close>

definition layer_ok :: "nat \<Rightarrow> AVDRMFrameDescriptor \<Rightarrow> AVDRMLayerDescriptor \<Rightarrow> bool" where
  "layer_ok max_planes desc layer \<longleftrightarrow>
     max_planes \<le> length (planes layer) \<and>
     list_all (\<lambda>pl. 0 \<le> object_index pl \<and> nat (object_index pl) < length (objects desc))
       (take max_planes (planes layer))"

definition desc_ok :: "nat \<Rightarrow> AVDRMFrameDescriptor \<Rightarrow> bool" where
  "desc_ok max_planes desc \<longleftrightarrow>
     nat (nb_layers desc) \<le> length (layers desc) \<and>
     list_all (layer_ok max_planes desc) (take (nat (nb_layers desc)) (layers desc))"

subsection \<open>The skip rule, in the specification's words\<close>

text \<open>Slot \<open>i\<close> of a layer is present when its object's descriptor and its stride are
  both non-zero; a present slot contributes its descriptor, index, offset and stride with
  a zero modifier; a buffer request holds the present slots in slot order.\<close>

definition plane_present :: "AVDRMFrameDescriptor \<Rightarrow> AVDRMLayerDescriptor \<Rightarrow> nat \<Rightarrow> bool" where
  "plane_present desc layer i \<longleftrightarrow>
     fd (objects desc ! nat (object_index (planes layer ! i))) \<noteq> 0 \<and> pitch (planes layer ! i) \<noteq> 0"

definition plane_args :: "AVDRMFrameDescriptor \<Rightarrow> AVDRMLayerDescriptor \<Rightarrow> nat \<Rightarrow> dmabuf_plane" where
  "plane_args desc layer i =
     \<lparr>plane_fd = fd (objects desc ! nat (object_index (planes layer ! i))),
      plane_idx = i,
      plane_offset = ucast (offset (planes layer ! i)),
      plane_stride = ucast (pitch (planes layer ! i)),
      modifier_hi = 0, modifier_lo = 0\<rparr>"

definition request_planes :: "nat \<Rightarrow> AVDRMFrameDescriptor \<Rightarrow> AVDRMLayerDescriptor \<Rightarrow> buffer_params" where
  "request_planes max_planes desc layer =
     map (plane_args desc layer) (filter (plane_present desc layer) [0..<max_planes])"

subsection \<open>The requests of one layer\<close>

definition begin_requests :: "nat \<Rightarrow> handle \<Rightarrow> AVDRMFrameDescriptor \<Rightarrow> AVDRMLayerDescriptor \<Rightarrow> wl_request list" where
  "begin_requests max_planes d desc layer =
     Create_params d # map Params_add (request_planes max_planes desc layer)"

definition submit_requests ::
  "nat \<Rightarrow> mpv_opengl_cb_wayland_params \<Rightarrow> mp_rect \<Rightarrow> AVDRMFrameDescriptor \<Rightarrow> AVDRMLayerDescriptor \<Rightarrow> wl_request list" where
  "submit_requests max_planes wp r desc layer =
     [Params_create (request_planes max_planes desc layer) (x1 r - x0 r) (y1 r - y0 r) (format layer) 0,
      Display_roundtrip (display wp), Params_destroy]"

definition attach_requests :: "handle \<Rightarrow> handle \<Rightarrow> wl_request list" where
  "attach_requests s b = [Surface_attach s (Some b) 0 0, Surface_commit s]"

definition accepted_requests ::
  "nat \<Rightarrow> handle \<Rightarrow> mpv_opengl_cb_wayland_params \<Rightarrow> handle \<Rightarrow> mp_rect \<Rightarrow> AVDRMFrameDescriptor
     \<Rightarrow> AVDRMLayerDescriptor \<Rightarrow> handle \<Rightarrow> wl_request list" where
  "accepted_requests max_planes d wp s r desc layer b =
     begin_requests max_planes d desc layer @ submit_requests max_planes wp r desc layer @ attach_requests s b"

definition accepted_prefix ::
  "nat \<Rightarrow> handle \<Rightarrow> mpv_opengl_cb_wayland_params \<Rightarrow> handle \<Rightarrow> mp_rect \<Rightarrow> AVDRMFrameDescriptor
     \<Rightarrow> (nat \<Rightarrow> handle) \<Rightarrow> nat \<Rightarrow> wl_request list" where
  "accepted_prefix max_planes d wp s r desc b k =
     concat (map (\<lambda>l. accepted_requests max_planes d wp s r desc (layers desc ! l) (b l)) [0..<k])"

text \<open>The world after the requests \<open>rs\<close> were issued and the buffers \<open>bs\<close> were
  attached to and committed on surface \<open>s\<close>, one after the other.\<close>

definition world_after :: "world \<Rightarrow> wl_request list \<Rightarrow> handle \<Rightarrow> handle list \<Rightarrow> world" where
  "world_after w rs s bs =
     w\<lparr>requests := requests w @ rs,
       pending_buffer := (if bs = [] then pending_buffer w else (pending_buffer w)(s := Some (last bs))),
       current_buffer := (if bs = [] then current_buffer w else (current_buffer w)(s := Some (last bs)))\<rparr>"

subsection \<open>Reading a request log\<close>

text \<open>The requests a call added to the log.\<close>

definition issued :: "world \<Rightarrow> world \<Rightarrow> wl_request list" where
  "issued w w' = drop (length (requests w)) (requests w')"

text \<open>The params objects a log creates, each with the planes added to it: a
  \<^verbatim>\<open>create_params\<close> opens a new object, an \<^verbatim>\<open>add\<close> goes to the newest one.\<close>

definition note_request :: "buffer_params list \<Rightarrow> wl_request \<Rightarrow> buffer_params list" where
  "note_request objs rq =
     (case rq of
        Create_params d \<Rightarrow> objs @ [[]]
      | Params_add e \<Rightarrow> (if objs = [] then [] else butlast objs @ [last objs @ [e]])
      | _ \<Rightarrow> objs)"

definition params_objects :: "wl_request list \<Rightarrow> buffer_params list" where
  "params_objects rs = foldl note_request [] rs"

text \<open>The buffer requests a log submits (\<^verbatim>\<open>create\<close>), the planes it adds, and the
  number of its round-trips.\<close>

record buffer_request =
  req_planes :: buffer_params
  req_width :: "32 word"
  req_height :: "32 word"
  req_format :: "32 word"
  req_flags :: "32 word"

definition submitted_of :: "wl_request \<Rightarrow> buffer_request list" where
  "submitted_of rq =
     (case rq of
        Params_create ps width height fmt flags \<Rightarrow>
          [\<lparr>req_planes = ps, req_width = width, req_height = height, req_format = fmt, req_flags = flags\<rparr>]
      | _ \<Rightarrow> [])"

definition submitted :: "wl_request list \<Rightarrow> buffer_request list" where
  "submitted rs = concat (map submitted_of rs)"

definition added_of :: "wl_request \<Rightarrow> dmabuf_plane list" where
  "added_of rq = (case rq of Params_add e \<Rightarrow> [e] | _ \<Rightarrow> [])"

definition added :: "wl_request list \<Rightarrow> dmabuf_plane list" where
  "added rs = concat (map added_of rs)"

definition is_roundtrip :: "wl_request \<Rightarrow> bool" where
  "is_roundtrip rq = (case rq of Display_roundtrip d \<Rightarrow> True | _ \<Rightarrow> False)"

definition round_trips :: "wl_request list \<Rightarrow> nat" where
  "round_trips rs = length (filter is_roundtrip rs)"

text \<open>The attached-buffer state of a surface: the buffer of its last attach and the
  buffer of its last commit.\<close>

definition attached :: "world \<Rightarrow> handle \<Rightarrow> handle option \<times> handle option" where
  "attached w s = (pending_buffer w s, current_buffer w s)"

text \<open>The attach and commit requests of a log, in order.\<close>

definition is_surface_request :: "wl_request \<Rightarrow> bool" where
  "is_surface_request rq =
     (case rq of Surface_attach s b x y \<Rightarrow> True | Surface_commit s \<Rightarrow> True | _ \<Rightarrow> False)"

definition surface_requests :: "wl_request list \<Rightarrow> wl_request list" where
  "surface_requests rs = filter is_surface_request rs"

text \<open>A descriptor with the declared plane counts of its layers replaced by \<open>counts\<close>,
  everything else as it was.\<close>

definition with_nb_planes :: "int list \<Rightarrow> AVDRMFrameDescriptor \<Rightarrow> AVDRMFrameDescriptor" where
  "with_nb_planes counts desc =
     desc\<lparr>layers := map (\<lambda>(layer, c). layer\<lparr>nb_planes := c\<rparr>) (zip (layers desc) counts)\<rparr>"

subsection \<open>How far a call gets\<close>

text \<open>A layer is accepted when its block is allocated and the server creates its buffer.
  The loop runs through the accepted layers and stops at the first layer that is not; it
  still submits that layer's request when the block was allocated (the server then said
  no), and submits nothing for it when the allocation failed.\<close>

definition layer_accepted :: "overlay_env \<Rightarrow> nat \<Rightarrow> bool" where
  "layer_accepted env l \<longleftrightarrow> malloc_ret env l \<noteq> None \<and> create_reply env l \<noteq> Failed"

definition layers_accepted :: "overlay_env \<Rightarrow> nat \<Rightarrow> nat" where
  "layers_accepted env n = length (takeWhile (layer_accepted env) [0..<n])"

definition layers_submitted :: "overlay_env \<Rightarrow> nat \<Rightarrow> nat" where
  "layers_submitted env n =
     (let j = layers_accepted env n
      in if j < n \<and> malloc_ret env j \<noteq> None then Suc j else j)"

subsection \<open>Example inputs\<close>

text \<open>A driver after a successful \<^verbatim>\<open>init\<close>, a world in which its surface shows
  buffer 50, and the frame of the specification's scenario: one layer with two planes
  backed by descriptor 5, a crop rectangle of 1920 by 1080, four plane slots per layer
  (libavutil's \<^verbatim>\<open>AV_DRM_MAX_PLANES\<close>). \<open>ex_desc2\<close> has the same layer twice.\<close>

definition ex_params :: mpv_opengl_cb_wayland_params where
  "ex_params = \<lparr>display = 1, compositor = 2, surface = 3\<rparr>"

definition ex_hw :: ra_hwdec where
  "ex_hw = \<lparr>hw_log = None,
            hw_priv = \<lparr>plog = None, wayland_params = Some ex_params, registry = Some 4,
                       dmabuf = Some 5, subcompositor = Some 6, video_surface = Some 7,
                       video_subsurface = Some 8\<rparr>\<rparr>"

definition ex_world :: world where
  "ex_world = \<lparr>requests = [], surfaces = {7}, subsurfaces = {8},
               pending_buffer = (\<lambda>s. if s = 7 then Some 50 else None),
               current_buffer = (\<lambda>s. if s = 7 then Some 50 else None)\<rparr>"

definition ex_no_plane :: AVDRMPlaneDescriptor where
  "ex_no_plane = \<lparr>object_index = 0, offset = 0, pitch = 0\<rparr>"

definition ex_no_object :: AVDRMObjectDescriptor where
  "ex_no_object = \<lparr>fd = 0, obj_size = 0, format_modifier = 0\<rparr>"

definition ex_no_layer :: AVDRMLayerDescriptor where
  "ex_no_layer = \<lparr>format = 0, nb_planes = 0, planes = [ex_no_plane, ex_no_plane, ex_no_plane, ex_no_plane]\<rparr>"

definition ex_layer :: AVDRMLayerDescriptor where
  "ex_layer = \<lparr>format = 842094158, nb_planes = 2,
               planes = [\<lparr>object_index = 0, offset = 0, pitch = 1920\<rparr>,
                         \<lparr>object_index = 0, offset = 3072000, pitch = 960\<rparr>,
                         ex_no_plane, ex_no_plane]\<rparr>"

definition ex_desc :: AVDRMFrameDescriptor where
  "ex_desc = \<lparr>nb_objects = 1,
              objects = [\<lparr>fd = 5, obj_size = 3110400, format_modifier = 0\<rparr>,
                         ex_no_object, ex_no_object, ex_no_object],
              nb_layers = 1,
              layers = [ex_layer, ex_no_layer, ex_no_layer, ex_no_layer]\<rparr>"

definition ex_desc2 :: AVDRMFrameDescriptor where
  "ex_desc2 = ex_desc\<lparr>nb_layers := 2, layers := [ex_layer, ex_layer, ex_no_layer, ex_no_layer]\<rparr>"

definition ex_rect :: mp_rect where
  "ex_rect = \<lparr>x0 = 0, y0 = 0, x1 = 1920, y1 = 1080\<rparr>"

definition ex_rect_moved :: mp_rect where
  "ex_rect_moved = \<lparr>x0 = 64, y0 = 32, x1 = 1984, y1 = 1112\<rparr>"

definition ex_block :: dmabuf_frame where
  "ex_block = \<lparr>buffer = Some 999, image = None\<rparr>"

definition ex_env_ok :: overlay_env where
  "ex_env_ok = \<lparr>malloc_ret = (\<lambda>l. Some ex_block), create_reply = (\<lambda>l. Created (100 + l))\<rparr>"

definition ex_env_second_fails :: overlay_env where
  "ex_env_second_fails =
     \<lparr>malloc_ret = (\<lambda>l. Some ex_block),
      create_reply = (\<lambda>l. if l = 0 then Created 100 else Failed)\<rparr>"

text \<open>The outcome of a call as far as a surface shows it: the return value and the
  surface's attached-buffer state, or nothing when the call faulted.\<close>

definition result_attached :: "handle \<Rightarrow> fault + int \<times> world \<Rightarrow> (int \<times> handle option \<times> handle option) option" where
  "result_attached s res = (case res of Inl f \<Rightarrow> None | Inr (ret, w') \<Rightarrow> Some (ret, attached w' s))"

text \<open>A driver as the host hands it to \<^verbatim>\<open>init\<close>, an environment without the
  Wayland interop parameters, and one in which the subsurface cannot be created.\<close>

definition ex_hw_fresh :: ra_hwdec where
  "ex_hw_fresh = \<lparr>hw_log = None, hw_priv = priv_zero\<rparr>"

definition ex_world_fresh :: world where
  "ex_world_fresh = \<lparr>requests = [], surfaces = {}, subsurfaces = {},
                     pending_buffer = (\<lambda>s. None), current_buffer = (\<lambda>s. None)\<rparr>"

definition ex_init_env_no_params :: init_env where
  "ex_init_env_no_params =
     \<lparr>gl_ret = Some 9, native_display_ret = None, get_registry_ret = Some 4,
      globals = [(1, ''wl_compositor'', 4), (2, ''wl_subcompositor'', 1), (3, ''zwp_linux_dmabuf_v1'', 3)],
      bind_ret = (\<lambda>name. Some (name + 3)),
      create_surface_ret = Some 7, get_subsurface_ret = Some 8\<rparr>"

definition ex_init_env_no_subsurface :: init_env where
  "ex_init_env_no_subsurface =
     ex_init_env_no_params\<lparr>native_display_ret := Some ex_params, get_subsurface_ret := None\<rparr>"

section \<open>Lemmas\<close>

subsection \<open>Reading a well-formed descriptor\<close>

lemma layer_ok_plane:
  assumes "layer_ok max_planes desc layer" and "plane < max_planes"
  shows "array_at (planes layer) (int plane) = Some (planes layer ! plane)"
    and "array_at (objects desc) (object_index (planes layer ! plane))
           = Some (objects desc ! nat (object_index (planes layer ! plane)))"
proof -
  from assms have len: "plane < length (planes layer)"
    by (simp add: layer_ok_def)
  then show "array_at (planes layer) (int plane) = Some (planes layer ! plane)"
    by (simp add: array_at_def)
  from assms len have "planes layer ! plane \<in> set (take max_planes (planes layer))"
    by (metis in_set_conv_nth length_take min_less_iff_conj nth_take)
  with assms(1) have "0 \<le> object_index (planes layer ! plane)
      \<and> nat (object_index (planes layer ! plane)) < length (objects desc)"
    by (simp add: layer_ok_def list_all_iff)
  then show "array_at (objects desc) (object_index (planes layer ! plane))
           = Some (objects desc ! nat (object_index (planes layer ! plane)))"
    by (simp add: array_at_def)
qed

lemma desc_ok_layer:
  assumes "desc_ok max_planes desc" and "int l < nb_layers desc"
  shows "array_at (layers desc) (int l) = Some (layers desc ! l)"
    and "layer_ok max_planes desc (layers desc ! l)"
proof -
  from assms(2) have l1: "l < nat (nb_layers desc)" by linarith
  with assms(1) have l2: "l < length (layers desc)" by (simp add: desc_ok_def)
  note len = l1 l2
  from l2 show "array_at (layers desc) (int l) = Some (layers desc ! l)"
    by (simp add: array_at_def)
  from len have "layers desc ! l \<in> set (take (nat (nb_layers desc)) (layers desc))"
    by (metis in_set_conv_nth length_take min_less_iff_conj nth_take)
  with assms(1) show "layer_ok max_planes desc (layers desc ! l)"
    by (simp add: desc_ok_def list_all_iff)
qed

subsection \<open>The plane loop\<close>

lemma plane_loop_step:
  assumes "layer_ok max_planes desc layer" and "plane < max_planes"
  shows "plane_loop max_planes desc layer 0 plane ps w =
           (if plane_present desc layer plane
            then plane_loop max_planes desc layer 0 (Suc plane) (ps @ [plane_args desc layer plane])
                   (send (Params_add (plane_args desc layer plane)) w)
            else plane_loop max_planes desc layer 0 (Suc plane) ps w)"
  using assms(2)
  by (simp add: plane_loop.simps [of _ _ _ _ plane] layer_ok_plane [OF assms]
      plane_present_def plane_args_def zwp_linux_buffer_params_v1_add_def Let_def)

lemma plane_loop_eq:
  assumes "layer_ok max_planes desc layer" and "plane \<le> max_planes"
  shows "plane_loop max_planes desc layer 0 plane ps w =
           Inr (ps @ map (plane_args desc layer) (filter (plane_present desc layer) [plane..<max_planes]),
                w\<lparr>requests := requests w @
                     map (\<lambda>i. Params_add (plane_args desc layer i))
                       (filter (plane_present desc layer) [plane..<max_planes])\<rparr>)"
  using assms(2)
proof (induction "max_planes - plane" arbitrary: plane ps w)
  case 0
  then show ?case by (simp add: plane_loop.simps [of _ _ _ _ plane])
next
  case (Suc k)
  then have lt: "plane < max_planes" and ih_pre: "k = max_planes - Suc plane" "Suc plane \<le> max_planes"
    by simp_all
  show ?case
    by (simp add: plane_loop_step [OF assms(1) lt] Suc.hyps(1) [OF ih_pre] upt_conv_Cons [OF lt] send_def)
qed

lemma plane_loop_same_planes:
  assumes "planes layer' = planes layer" and "objects desc' = objects desc"
  shows "plane_loop max_planes desc' layer' modifier plane ps w
       = plane_loop max_planes desc layer modifier plane ps w"
proof (induction "max_planes - plane" arbitrary: plane ps w)
  case 0
  then show ?case by (simp add: plane_loop.simps [of _ _ _ _ plane])
next
  case (Suc k)
  then have ih: "\<And>ps w. plane_loop max_planes desc' layer' modifier (Suc plane) ps w
       = plane_loop max_planes desc layer modifier (Suc plane) ps w"
    by simp
  show ?case
    by (simp add: plane_loop.simps [of _ _ _ _ plane] assms ih split: option.splits prod.splits)
qed

subsection \<open>One layer\<close>

lemma world_after_nothing [simp]: "world_after w [] s [] = w"
  by (simp add: world_after_def)

lemma world_after_again:
  "world_after (world_after w rs s bs) rs' s bs' = world_after w (rs @ rs') s (bs @ bs')"
  by (simp add: world_after_def)

lemma world_after_sel [simp]:
  "requests (world_after w rs s bs) = requests w @ rs"
  "surfaces (world_after w rs s bs) = surfaces w"
  "subsurfaces (world_after w rs s bs) = subsurfaces w"
  by (simp_all add: world_after_def)

lemma issued_world_after [simp]: "issued w (world_after w rs s bs) = rs"
  by (simp add: issued_def)

lemma attached_world_after:
  "attached (world_after w rs s bs) s = (if bs = [] then attached w s else (Some (last bs), Some (last bs)))"
  by (simp add: attached_def world_after_def)

lemma layer_turn_begin:
  assumes "layer_ok max_planes desc layer"
  shows "plane_loop max_planes desc layer 0 0 [] (send (Create_params d) w) =
           Inr (request_planes max_planes desc layer,
                world_after w (begin_requests max_planes d desc layer) s [])"
  by (simp add: plane_loop_eq [OF assms] request_planes_def begin_requests_def world_after_def send_def comp_def)

lemma layer_turn_accepted:
  assumes "dmabuf (hw_priv hw) = Some d" and "wayland_params (hw_priv hw) = Some wp"
    and "video_surface (hw_priv hw) = Some s" and "s \<in> surfaces w"
    and "array_at (layers desc) (int l) = Some layer" and "layer_ok max_planes desc layer"
    and "malloc_ret env l = Some fr" and "create_reply env l = Created b"
  shows "layer_turn max_planes hw (Some r) desc 0 0 env l w =
           Inr (Next (world_after w (accepted_requests max_planes d wp s r desc layer b) s [b]))"
  using assms(1-5,7,8)
  apply (simp add: layer_turn_def zwp_linux_dmabuf_v1_create_params_def layer_turn_begin [OF assms(6), of d w s])
  apply (simp add: zwp_linux_buffer_params_v1_create_def roundtrip_dispatch_def param_create_succeeded_def
      zwp_linux_buffer_params_v1_destroy_def wl_display_roundtrip_def wl_surface_attach_def
      wl_surface_commit_def send_def world_after_def accepted_requests_def submit_requests_def
      attach_requests_def Let_def)
  done

lemma layer_turn_rejected:
  assumes "dmabuf (hw_priv hw) = Some d" and "wayland_params (hw_priv hw) = Some wp"
    and "array_at (layers desc) (int l) = Some layer" and "layer_ok max_planes desc layer"
    and "malloc_ret env l = Some fr" and "create_reply env l = Failed"
  shows "layer_turn max_planes hw (Some r) desc 0 0 env l w =
           Inr (Fail (- 1) (world_after w (begin_requests max_planes d desc layer
                                            @ submit_requests max_planes wp r desc layer) s []))"
  using assms(1-3,5,6)
  apply (simp add: layer_turn_def zwp_linux_dmabuf_v1_create_params_def layer_turn_begin [OF assms(4), of d w s])
  apply (simp add: zwp_linux_buffer_params_v1_create_def roundtrip_dispatch_def param_create_failed_def
      zwp_linux_buffer_params_v1_destroy_def wl_display_roundtrip_def
      send_def world_after_def submit_requests_def Let_def)
  done

lemma layer_turn_oom:
  assumes "dmabuf (hw_priv hw) = Some d"
    and "array_at (layers desc) (int l) = Some layer" and "layer_ok max_planes desc layer"
    and "malloc_ret env l = None"
  shows "layer_turn max_planes hw src desc 0 0 env l w =
           Inr (Fail (- 1) (world_after w (begin_requests max_planes d desc layer) s []))"
  using assms(1,2,4)
  by (simp add: layer_turn_def zwp_linux_dmabuf_v1_create_params_def layer_turn_begin [OF assms(3), of d w s])

subsection \<open>The layer loop\<close>

lemma layer_loop_accepted_prefix:
  assumes "dmabuf (hw_priv hw) = Some d" and "wayland_params (hw_priv hw) = Some wp"
    and "video_surface (hw_priv hw) = Some s" and "s \<in> surfaces w"
    and "desc_ok max_planes desc"
    and "k \<le> nat (nb_layers desc)"
    and "\<forall>i<k. malloc_ret env i \<noteq> None \<and> create_reply env i = Created (b i)"
  shows "layer_loop max_planes hw (Some r) desc 0 0 env 0 w =
         layer_loop max_planes hw (Some r) desc 0 0 env k
           (world_after w (accepted_prefix max_planes d wp s r desc b k) s (map b [0..<k]))"
  using assms(6,7)
proof (induction k)
  case 0
  show ?case by (simp add: accepted_prefix_def)
next
  case (Suc k)
  let ?wk = "world_after w (accepted_prefix max_planes d wp s r desc b k) s (map b [0..<k])"
  from Suc.prems have lt: "int k < nb_layers desc" by linarith
  from Suc.prems obtain fr where fr: "malloc_ret env k = Some fr" and cr: "create_reply env k = Created (b k)"
    by auto
  have live: "s \<in> surfaces ?wk" using assms(4) by simp
  have turn: "layer_turn max_planes hw (Some r) desc 0 0 env k ?wk =
      Inr (Next (world_after ?wk (accepted_requests max_planes d wp s r desc (layers desc ! k) (b k)) s [b k]))"
    by (rule layer_turn_accepted [OF assms(1-3) live desc_ok_layer [OF assms(5) lt] fr cr])
  have "layer_loop max_planes hw (Some r) desc 0 0 env 0 w =
        layer_loop max_planes hw (Some r) desc 0 0 env k ?wk"
    using Suc by simp
  also have "\<dots> = layer_loop max_planes hw (Some r) desc 0 0 env (Suc k)
       (world_after ?wk (accepted_requests max_planes d wp s r desc (layers desc ! k) (b k)) s [b k])"
    using lt by (simp add: layer_loop.simps [of _ _ _ _ _ _ _ k] turn)
  finally show ?case
    by (simp add: world_after_again accepted_prefix_def)
qed

lemma layer_loop_all_accepted:
  assumes "dmabuf (hw_priv hw) = Some d" and "wayland_params (hw_priv hw) = Some wp"
    and "video_surface (hw_priv hw) = Some s" and "s \<in> surfaces w"
    and "desc_ok max_planes desc"
    and "\<forall>i<nat (nb_layers desc). malloc_ret env i \<noteq> None \<and> create_reply env i = Created (b i)"
  shows "layer_loop max_planes hw (Some r) desc 0 0 env 0 w =
         Inr (0, world_after w (accepted_prefix max_planes d wp s r desc b (nat (nb_layers desc))) s
                   (map b [0..<nat (nb_layers desc)]))"
  by (simp add: layer_loop_accepted_prefix [OF assms(1-5) order_refl assms(6)]
      layer_loop.simps [of _ _ _ _ _ _ _ "nat (nb_layers desc)"])

lemma layer_loop_rejected:
  assumes "dmabuf (hw_priv hw) = Some d" and "wayland_params (hw_priv hw) = Some wp"
    and "video_surface (hw_priv hw) = Some s" and "s \<in> surfaces w"
    and "desc_ok max_planes desc"
    and "int k < nb_layers desc"
    and "\<forall>i<k. malloc_ret env i \<noteq> None \<and> create_reply env i = Created (b i)"
    and "malloc_ret env k \<noteq> None" and "create_reply env k = Failed"
  shows "layer_loop max_planes hw (Some r) desc 0 0 env 0 w =
         Inr (- 1, world_after w (accepted_prefix max_planes d wp s r desc b k
                                   @ begin_requests max_planes d desc (layers desc ! k)
                                   @ submit_requests max_planes wp r desc (layers desc ! k)) s
                     (map b [0..<k]))"
proof -
  let ?wk = "world_after w (accepted_prefix max_planes d wp s r desc b k) s (map b [0..<k])"
  from assms(6) have le: "k \<le> nat (nb_layers desc)" by linarith
  from assms(8) obtain fr where fr: "malloc_ret env k = Some fr" by auto
  have turn: "layer_turn max_planes hw (Some r) desc 0 0 env k ?wk =
      Inr (Fail (- 1) (world_after ?wk (begin_requests max_planes d desc (layers desc ! k)
                                   @ submit_requests max_planes wp r desc (layers desc ! k)) s []))"
    by (rule layer_turn_rejected [OF assms(1,2) desc_ok_layer [OF assms(5,6)] fr assms(9)])
  show ?thesis
    using assms(6)
    by (simp add: layer_loop_accepted_prefix [OF assms(1-5) le assms(7)]
        layer_loop.simps [of _ _ _ _ _ _ _ k] turn world_after_again)
qed

lemma layer_loop_oom:
  assumes "dmabuf (hw_priv hw) = Some d" and "wayland_params (hw_priv hw) = Some wp"
    and "video_surface (hw_priv hw) = Some s" and "s \<in> surfaces w"
    and "desc_ok max_planes desc"
    and "int k < nb_layers desc"
    and "\<forall>i<k. malloc_ret env i \<noteq> None \<and> create_reply env i = Created (b i)"
    and "malloc_ret env k = None"
  shows "layer_loop max_planes hw (Some r) desc 0 0 env 0 w =
         Inr (- 1, world_after w (accepted_prefix max_planes d wp s r desc b k
                                   @ begin_requests max_planes d desc (layers desc ! k)) s
                     (map b [0..<k]))"
proof -
  let ?wk = "world_after w (accepted_prefix max_planes d wp s r desc b k) s (map b [0..<k])"
  from assms(6) have le: "k \<le> nat (nb_layers desc)" by linarith
  have turn: "layer_turn max_planes hw (Some r) desc 0 0 env k ?wk =
      Inr (Fail (- 1) (world_after ?wk (begin_requests max_planes d desc (layers desc ! k)) s []))"
    by (rule layer_turn_oom [OF assms(1) desc_ok_layer [OF assms(5,6)] assms(8)])
  show ?thesis
    using assms(6)
    by (simp add: layer_loop_accepted_prefix [OF assms(1-5) le assms(7)]
        layer_loop.simps [of _ _ _ _ _ _ _ k] turn world_after_again)
qed

lemma layers_accepted_all:
  assumes "\<forall>i<n. malloc_ret env i \<noteq> None \<and> create_reply env i = Created (b i)"
  shows "layers_accepted env n = n"
proof -
  have "\<forall>x\<in>set [0..<n]. layer_accepted env x"
    using assms by (simp add: layer_accepted_def)
  then have "takeWhile (layer_accepted env) [0..<n] = [0..<n]"
    by (rule takeWhile_eq_all_conv [THEN iffD2])
  then have "length (takeWhile (layer_accepted env) [0..<n]) = length [0..<n]"
    by (rule arg_cong)
  then show ?thesis by (simp add: layers_accepted_def)
qed

lemma layers_accepted_stop:
  assumes "k < n"
    and "\<forall>i<k. malloc_ret env i \<noteq> None \<and> create_reply env i = Created (b i)"
    and "\<not> layer_accepted env k"
  shows "layers_accepted env n = k"
proof -
  have "[0..<k + (n - k)] = [0..<k] @ [k..<k + (n - k)]"
    by (rule upt_add_eq_append) simp
  moreover have "[k..<n] = k # [Suc k..<n]"
    using assms(1) by (rule upt_conv_Cons)
  ultimately have split: "[0..<n] = [0..<k] @ k # [Suc k..<n]"
    using assms(1) by simp
  have pre: "\<forall>x\<in>set [0..<k]. layer_accepted env x"
    using assms(2) by (simp add: layer_accepted_def)
  have "takeWhile (layer_accepted env) ([0..<k] @ k # [Suc k..<n])
          = [0..<k] @ takeWhile (layer_accepted env) (k # [Suc k..<n])"
    by (rule takeWhile_append2) (use pre in blast)
  with assms(3) have "takeWhile (layer_accepted env) [0..<n] = [0..<k]"
    by (simp only: split takeWhile.simps if_False append_Nil2)
  then show ?thesis by (simp add: layers_accepted_def)
qed

lemma env_cases:
  obtains (all) b where "\<forall>i<n. malloc_ret env i \<noteq> None \<and> create_reply env i = Created (b i)"
  | (rejected) k b where "k < n"
      and "\<forall>i<k. malloc_ret env i \<noteq> None \<and> create_reply env i = Created (b i)"
      and "malloc_ret env k \<noteq> None" and "create_reply env k = Failed"
  | (oom) k b where "k < n"
      and "\<forall>i<k. malloc_ret env i \<noteq> None \<and> create_reply env i = Created (b i)"
      and "malloc_ret env k = None"
proof -
  define b where "b i = (case create_reply env i of Created h \<Rightarrow> h | Failed \<Rightarrow> 0)" for i
  define good where "good i \<longleftrightarrow> malloc_ret env i \<noteq> None \<and> create_reply env i \<noteq> Failed" for i
  have good_b: "malloc_ret env i \<noteq> None \<and> create_reply env i = Created (b i)" if "good i" for i
    using that by (cases "create_reply env i") (simp_all add: good_def b_def)
  show thesis
  proof (cases "\<forall>i<n. good i")
    case True
    then show thesis using all [of b] good_b by blast
  next
    case False
    then obtain j where j: "j < n" "\<not> good j" by blast
    define k where "k = (LEAST j. \<not> good j)"
    have bad: "\<not> good k" unfolding k_def using j(2) by (rule LeastI)
    have kle: "k \<le> j" unfolding k_def using j(2) by (rule Least_le)
    have before: "\<forall>i<k. malloc_ret env i \<noteq> None \<and> create_reply env i = Created (b i)"
      using good_b not_less_Least k_def by blast
    from kle j(1) have kn: "k < n" by simp
    show thesis
    proof (cases "malloc_ret env k")
      case None
      then show thesis using oom [OF kn before] by blast
    next
      case (Some fr)
      with bad have "create_reply env k = Failed" by (simp add: good_def)
      with Some show thesis using rejected [OF kn before] by simp
    qed
  qed
qed

lemma overlay_frame_run:
  assumes "dmabuf (hw_priv hw) = Some d" and "wayland_params (hw_priv hw) = Some wp"
    and "video_surface (hw_priv hw) = Some s" and "s \<in> surfaces w"
    and "desc_ok max_planes desc" and "img_planes0 img = Some desc"
  obtains (all) b where
      "\<forall>i<nat (nb_layers desc). malloc_ret env i \<noteq> None \<and> create_reply env i = Created (b i)"
      and "overlay_frame max_planes hw (Some img) (Some r) dst newframe env w =
         Inr (0, world_after w (accepted_prefix max_planes d wp s r desc b (nat (nb_layers desc))) s
                   (map b [0..<nat (nb_layers desc)]))"
  | (rejected) k b where "int k < nb_layers desc"
      and "\<forall>i<k. malloc_ret env i \<noteq> None \<and> create_reply env i = Created (b i)"
      and "malloc_ret env k \<noteq> None" and "create_reply env k = Failed"
      and "overlay_frame max_planes hw (Some img) (Some r) dst newframe env w =
         Inr (- 1, world_after w (accepted_prefix max_planes d wp s r desc b k
                                   @ begin_requests max_planes d desc (layers desc ! k)
                                   @ submit_requests max_planes wp r desc (layers desc ! k)) s
                     (map b [0..<k]))"
  | (oom) k b where "int k < nb_layers desc"
      and "\<forall>i<k. malloc_ret env i \<noteq> None \<and> create_reply env i = Created (b i)"
      and "malloc_ret env k = None"
      and "overlay_frame max_planes hw (Some img) (Some r) dst newframe env w =
         Inr (- 1, world_after w (accepted_prefix max_planes d wp s r desc b k
                                   @ begin_requests max_planes d desc (layers desc ! k)) s
                     (map b [0..<k]))"
proof -
  have unfold: "overlay_frame max_planes hw (Some img) (Some r) dst newframe env w =
      layer_loop max_planes hw (Some r) desc 0 0 env 0 w"
    using assms(6) by (simp add: overlay_frame_def)
  show thesis
  proof (cases rule: env_cases [of "nat (nb_layers desc)" env])
    case (all b)
    show thesis
      by (rule that(1) [OF all]) (simp add: unfold layer_loop_all_accepted [OF assms(1-5) all])
  next
    case (rejected k b)
    from rejected(1) have lt: "int k < nb_layers desc" by linarith
    show thesis
      by (rule that(2) [OF lt rejected(2-4)])
         (simp add: unfold layer_loop_rejected [OF assms(1-5) lt rejected(2-4)])
  next
    case (oom k b)
    from oom(1) have lt: "int k < nb_layers desc" by linarith
    show thesis
      by (rule that(3) [OF lt oom(2,3)])
         (simp add: unfold layer_loop_oom [OF assms(1-5) lt oom(2,3)])
  qed
qed

subsection \<open>Request logs\<close>

lemma note_adds: "foldl note_request (objs @ [g]) (map Params_add ps) = objs @ [g @ ps]"
  by (induction ps arbitrary: g) (simp_all add: note_request_def)

lemma note_begin:
  "foldl note_request objs (begin_requests max_planes d desc layer) = objs @ [request_planes max_planes desc layer]"
  using note_adds [of objs "[]"] by (simp add: begin_requests_def note_request_def)

lemma note_submit: "foldl note_request objs (submit_requests max_planes wp r desc layer) = objs"
  by (simp add: submit_requests_def note_request_def)

lemma note_attach: "foldl note_request objs (attach_requests s b) = objs"
  by (simp add: attach_requests_def note_request_def)

lemma note_accepted:
  "foldl note_request objs (accepted_requests max_planes d wp s r desc layer b)
     = objs @ [request_planes max_planes desc layer]"
  by (simp add: accepted_requests_def note_begin note_submit note_attach)

lemma note_prefix:
  "foldl note_request objs (accepted_prefix max_planes d wp s r desc b k)
     = objs @ map (\<lambda>l. request_planes max_planes desc (layers desc ! l)) [0..<k]"
  by (induction k) (simp_all add: accepted_prefix_def note_accepted)

lemma params_objects_prefix:
  "params_objects (accepted_prefix max_planes d wp s r desc b k)
     = map (\<lambda>l. request_planes max_planes desc (layers desc ! l)) [0..<k]"
  using note_prefix [of "[]"] by (simp add: params_objects_def)

lemma params_objects_rejected:
  "params_objects (accepted_prefix max_planes d wp s r desc b k
                     @ begin_requests max_planes d desc (layers desc ! k)
                     @ submit_requests max_planes wp r desc (layers desc ! k))
     = map (\<lambda>l. request_planes max_planes desc (layers desc ! l)) [0..<Suc k]"
  using note_prefix [of "[]"] by (simp add: params_objects_def note_begin note_submit)

lemma params_objects_oom:
  "params_objects (accepted_prefix max_planes d wp s r desc b k
                     @ begin_requests max_planes d desc (layers desc ! k))
     = map (\<lambda>l. request_planes max_planes desc (layers desc ! l)) [0..<Suc k]"
  using note_prefix [of "[]"] by (simp add: params_objects_def note_begin)

lemma request_planes_slot:
  "(\<exists>e\<in>set (request_planes max_planes desc layer). plane_idx e = i)
     \<longleftrightarrow> i < max_planes \<and> plane_present desc layer i"
  by (auto simp: request_planes_def plane_args_def)

lemma skip_rule_slots:
  assumes "objs = map (\<lambda>l. request_planes max_planes desc (layers desc ! l)) [0..<k]"
    and "l < k" and "i < max_planes"
  shows "(\<exists>e\<in>set (objs ! l). plane_idx e = i) \<longleftrightarrow>
         fd (objects desc ! nat (object_index (planes (layers desc ! l) ! i))) \<noteq> 0
           \<and> pitch (planes (layers desc ! l) ! i) \<noteq> 0"
  using assms request_planes_slot [of max_planes desc "layers desc ! l" i]
  by (simp add: plane_present_def)

lemma overlay_frame_params_objects:
  assumes "dmabuf (hw_priv hw) = Some d" and "wayland_params (hw_priv hw) = Some wp"
    and "video_surface (hw_priv hw) = Some s" and "s \<in> surfaces w"
    and "desc_ok max_planes desc" and "img_planes0 img = Some desc"
  shows "\<exists>ret w' k. overlay_frame max_planes hw (Some img) (Some r) dst newframe env w = Inr (ret, w')
           \<and> k \<le> nat (nb_layers desc) \<and> (ret = 0 \<longrightarrow> k = nat (nb_layers desc))
           \<and> (0 < nb_layers desc \<longrightarrow> 0 < k)
           \<and> params_objects (issued w w')
                = map (\<lambda>l. request_planes max_planes desc (layers desc ! l)) [0..<k]"
proof -
  have concl: ?thesis
    if "overlay_frame max_planes hw (Some img) (Some r) dst newframe env w = Inr (ret, world_after w rs s bs)"
      and "k \<le> nat (nb_layers desc)" and "ret = 0 \<longrightarrow> k = nat (nb_layers desc)"
      and "0 < nb_layers desc \<longrightarrow> 0 < k"
      and "params_objects rs = map (\<lambda>l. request_planes max_planes desc (layers desc ! l)) [0..<k]"
    for ret rs bs k
    apply (rule exI [of _ ret], rule exI [of _ "world_after w rs s bs"], rule exI [of _ k])
    using that by simp
  from assms show ?thesis
  proof (cases rule: overlay_frame_run [where env = env and r = r and dst = dst and newframe = newframe])
    case (all b)
    show ?thesis
      by (rule concl [OF all(2) _ _ _ params_objects_prefix]) simp_all
  next
    case (rejected k b)
    show ?thesis
      using rejected(1) by (intro concl [OF rejected(5) _ _ _ params_objects_rejected]) simp_all
  next
    case (oom k b)
    show ?thesis
      using oom(1) by (intro concl [OF oom(4) _ _ _ params_objects_oom]) simp_all
  qed
qed

lemma observe_nothing [simp]: "submitted [] = []" "added [] = []" "round_trips [] = 0"
  by (simp_all add: submitted_def added_def round_trips_def)

lemma submitted_append: "submitted (rs @ rs') = submitted rs @ submitted rs'"
  by (simp add: submitted_def)

lemma submitted_adds: "submitted (map Params_add ps) = []"
  by (induction ps) (simp_all add: submitted_def submitted_of_def)

lemma submitted_begin: "submitted (begin_requests max_planes d desc layer) = []"
  using submitted_adds by (simp add: begin_requests_def submitted_def submitted_of_def)

lemma submitted_submit:
  "submitted (submit_requests max_planes wp r desc layer) =
     [\<lparr>req_planes = request_planes max_planes desc layer, req_width = x1 r - x0 r,
       req_height = y1 r - y0 r, req_format = format layer, req_flags = 0\<rparr>]"
  by (simp add: submit_requests_def submitted_def submitted_of_def)

lemma submitted_attach: "submitted (attach_requests s b) = []"
  by (simp add: attach_requests_def submitted_def submitted_of_def)

lemma submitted_prefix:
  "submitted (accepted_prefix max_planes d wp s r desc b k) =
     map (\<lambda>l. \<lparr>req_planes = request_planes max_planes desc (layers desc ! l), req_width = x1 r - x0 r,
                req_height = y1 r - y0 r, req_format = format (layers desc ! l), req_flags = 0\<rparr>) [0..<k]"
  by (induction k)
     (simp_all add: accepted_prefix_def accepted_requests_def submitted_append submitted_begin
        submitted_submit submitted_attach)

lemma added_append: "added (rs @ rs') = added rs @ added rs'"
  by (simp add: added_def)

lemma added_adds: "added (map Params_add ps) = ps"
  by (induction ps) (simp_all add: added_def added_of_def)

lemma added_begin: "added (begin_requests max_planes d desc layer) = request_planes max_planes desc layer"
  using added_adds by (simp add: begin_requests_def added_def added_of_def)

lemma added_submit: "added (submit_requests max_planes wp r desc layer) = []"
  by (simp add: submit_requests_def added_def added_of_def)

lemma added_attach: "added (attach_requests s b) = []"
  by (simp add: attach_requests_def added_def added_of_def)

lemma request_planes_modifier:
  "e \<in> set (request_planes max_planes desc layer) \<Longrightarrow> modifier_hi e = 0 \<and> modifier_lo e = 0"
  by (auto simp: request_planes_def plane_args_def)

lemma added_prefix_modifier:
  "e \<in> set (added (accepted_prefix max_planes d wp s r desc b k)) \<Longrightarrow> modifier_hi e = 0 \<and> modifier_lo e = 0"
proof (induction k)
  case 0
  then show ?case by (simp add: accepted_prefix_def)
next
  case (Suc k)
  then show ?case
    using request_planes_modifier [of e max_planes desc "layers desc ! k"]
    by (auto simp: accepted_prefix_def accepted_requests_def added_append added_begin added_submit added_attach)
qed

lemma added_rejected_modifier:
  assumes "e \<in> set (added (accepted_prefix max_planes d wp s r desc b k
                     @ begin_requests max_planes d desc layer @ rest))"
    and "added rest = []"
  shows "modifier_hi e = 0 \<and> modifier_lo e = 0"
  using assms added_prefix_modifier [of e max_planes d wp s r desc b k]
    request_planes_modifier [of e max_planes desc layer]
  by (auto simp: added_append added_begin)

lemma round_trips_append: "round_trips (rs @ rs') = round_trips rs + round_trips rs'"
  by (simp add: round_trips_def)

lemma round_trips_adds: "round_trips (map Params_add ps) = 0"
  by (induction ps) (simp_all add: round_trips_def is_roundtrip_def)

lemma round_trips_accepted: "round_trips (accepted_requests max_planes d wp s r desc layer b) = 1"
  using round_trips_adds
  by (simp add: accepted_requests_def begin_requests_def submit_requests_def attach_requests_def
      round_trips_append) (simp add: round_trips_def is_roundtrip_def)

lemma round_trips_prefix: "round_trips (accepted_prefix max_planes d wp s r desc b k) = k"
  using round_trips_accepted
  by (induction k) (simp_all add: accepted_prefix_def round_trips_append)

lemma surface_requests_append: "surface_requests (rs @ rs') = surface_requests rs @ surface_requests rs'"
  by (simp add: surface_requests_def)

lemma surface_requests_adds: "surface_requests (map Params_add ps) = []"
  by (induction ps) (simp_all add: surface_requests_def is_surface_request_def)

lemma surface_requests_accepted:
  "surface_requests (accepted_requests max_planes d wp s r desc layer b)
     = [Surface_attach s (Some b) 0 0, Surface_commit s]"
  using surface_requests_adds
  by (simp add: accepted_requests_def begin_requests_def submit_requests_def attach_requests_def
      surface_requests_append) (simp add: surface_requests_def is_surface_request_def)

lemma surface_requests_prefix:
  "surface_requests (accepted_prefix max_planes d wp s r desc b k)
     = concat (map (\<lambda>l. [Surface_attach s (Some (b l)) 0 0, Surface_commit s]) [0..<k])"
proof (induction k)
  case 0
  show ?case by (simp add: accepted_prefix_def surface_requests_def)
next
  case (Suc k)
  then show ?case
    by (simp add: accepted_prefix_def surface_requests_append surface_requests_accepted)
qed

subsection \<open>What the outcome does not depend on\<close>

lemma layer_turn_src:
  assumes "x1 r - x0 r = x1 r' - x0 r'" and "y1 r - y0 r = y1 r' - y0 r'"
  shows "layer_turn max_planes hw (Some r) desc modifier flags env l w
       = layer_turn max_planes hw (Some r') desc modifier flags env l w"
  by (simp only: layer_turn_def option.case assms)

lemma layer_loop_src:
  assumes "x1 r - x0 r = x1 r' - x0 r'" and "y1 r - y0 r = y1 r' - y0 r'"
  shows "layer_loop max_planes hw (Some r) desc modifier flags env l w
       = layer_loop max_planes hw (Some r') desc modifier flags env l w"
proof (induction "nat (nb_layers desc) - l" arbitrary: l w)
  case 0
  then have "\<not> int l < nb_layers desc" by linarith
  then show ?case by (simp add: layer_loop.simps)
next
  case (Suc k)
  have step: "layer_turn max_planes hw (Some r) desc modifier flags env l w
       = layer_turn max_planes hw (Some r') desc modifier flags env l w"
    by (rule layer_turn_src [OF assms])
  have ih: "\<And>w'. layer_loop max_planes hw (Some r) desc modifier flags env (Suc l) w'
       = layer_loop max_planes hw (Some r') desc modifier flags env (Suc l) w'"
    using Suc by simp
  show ?case
    by (simp add: layer_loop.simps [of _ _ _ _ _ _ _ l w] step ih split: sum.splits turn.splits)
qed

lemma array_at_with_nb_planes:
  assumes "length counts = length (layers desc)"
  shows "array_at (layers (with_nb_planes counts desc)) i
       = map_option (\<lambda>layer. layer\<lparr>nb_planes := counts ! nat i\<rparr>) (array_at (layers desc) i)"
  using assms by (simp add: array_at_def with_nb_planes_def)

lemma layer_turn_nb_planes:
  assumes "length counts = length (layers desc)"
  shows "layer_turn max_planes hw src (with_nb_planes counts desc) modifier flags env l w
       = layer_turn max_planes hw src desc modifier flags env l w"
proof (cases "array_at (layers desc) (int l)")
  case None
  then show ?thesis
    by (simp add: layer_turn_def array_at_with_nb_planes [OF assms])
next
  case (Some layer)
  have objs: "objects (with_nb_planes counts desc) = objects desc"
    by (simp add: with_nb_planes_def)
  have "plane_loop max_planes (with_nb_planes counts desc) (layer\<lparr>nb_planes := c\<rparr>) modifier plane ps v
      = plane_loop max_planes desc layer modifier plane ps v" for c plane ps v
    by (rule plane_loop_same_planes) (simp_all add: objs)
  with Some show ?thesis
    by (simp add: layer_turn_def array_at_with_nb_planes [OF assms] Let_def
        zwp_linux_dmabuf_v1_create_params_def split: option.splits sum.splits prod.splits)
qed

lemma layer_loop_nb_planes:
  assumes "length counts = length (layers desc)"
  shows "layer_loop max_planes hw src (with_nb_planes counts desc) modifier flags env l w
       = layer_loop max_planes hw src desc modifier flags env l w"
proof (induction "nat (nb_layers desc) - l" arbitrary: l w)
  case 0
  then have "\<not> int l < nb_layers desc" by linarith
  then show ?case by (simp add: layer_loop.simps with_nb_planes_def)
next
  case (Suc k)
  have ih: "\<And>w'. layer_loop max_planes hw src (with_nb_planes counts desc) modifier flags env (Suc l) w'
       = layer_loop max_planes hw src desc modifier flags env (Suc l) w'"
    using Suc by simp
  have nb: "nb_layers (with_nb_planes counts desc) = nb_layers desc"
    by (simp add: with_nb_planes_def)
  show ?case
    by (simp add: layer_loop.simps [of _ _ _ _ _ _ _ l w] layer_turn_nb_planes [OF assms] ih nb
        split: sum.splits turn.splits)
qed

lemma overlay_frame_nb_planes:
  assumes "length counts = length (layers desc)"
  shows "overlay_frame max_planes hw (Some (img\<lparr>img_planes0 := Some (with_nb_planes counts desc)\<rparr>))
           src dst newframe env w
       = overlay_frame max_planes hw (Some (img\<lparr>img_planes0 := Some desc\<rparr>)) src dst newframe env w"
  by (simp add: overlay_frame_def layer_loop_nb_planes [OF assms])

subsection \<open>uninit and init\<close>

lemma uninit_never_created:
  assumes "video_surface (hw_priv hw) = None" and "video_subsurface (hw_priv hw) = None"
    and "wayland_params (hw_priv hw) = Some wp"
  shows "uninit hw w = Inr (send (Display_roundtrip (display wp)) w)"
  using assms by (simp add: uninit_def wl_display_roundtrip_def)

lemma uninit_without_params:
  assumes "video_surface (hw_priv hw) = None" and "video_subsurface (hw_priv hw) = None"
    and "wayland_params (hw_priv hw) = None"
  shows "uninit hw w = Inl Null_deref"
  using assms by (simp add: uninit_def)

lemma registry_handle_add_keeps:
  assumes "registry_handle_add p reg name interface ver binds w = Inr (p', w')"
  shows "wayland_params p' = wayland_params p \<and> video_surface p' = video_surface p
         \<and> video_subsurface p' = video_subsurface p
         \<and> surfaces w' = surfaces w \<and> subsurfaces w' = subsurfaces w"
  using assms
  by (auto simp: registry_handle_add_def wl_registry_bind_def send_def Let_def
      split: if_splits option.splits prod.splits)

lemma dispatch_globals_keeps:
  assumes "dispatch_globals p reg gs binds w = Inr (p', w')"
  shows "wayland_params p' = wayland_params p \<and> video_surface p' = video_surface p
         \<and> video_subsurface p' = video_subsurface p
         \<and> surfaces w' = surfaces w \<and> subsurfaces w' = subsurfaces w"
  using assms
proof (induction gs arbitrary: p w)
  case Nil
  then show ?case by simp
next
  case (Cons g gs)
  obtain name interface ver where g: "g = (name, interface, ver)"
    by (cases g) auto
  from Cons.prems obtain p1 w1 where
    first: "registry_handle_add p reg name interface ver binds w = Inr (p1, w1)"
    and rest: "dispatch_globals p1 reg gs binds w1 = Inr (p', w')"
    by (auto simp: g split: sum.splits)
  show ?case
    using registry_handle_add_keeps [OF first] Cons.IH [OF rest] by simp
qed

lemma init_failure_leaves_nothing:
  assumes "hw_priv hw = priv_zero" and "init hw env w = Inr (ret, hw', w')" and "ret \<noteq> 0"
  shows "ret = - 1 \<and> video_subsurface (hw_priv hw') = None
         \<and> (\<forall>s. video_surface (hw_priv hw') = Some s \<longrightarrow> s \<notin> surfaces w')
         \<and> subsurfaces w' = subsurfaces w"
  using assms
  by (auto simp: init_def init_err_def uninit_def priv_zero_def Let_def
      wl_compositor_create_surface_def wl_subcompositor_get_subsurface_def wl_subsurface_place_below_def
      wl_surface_destroy_def wl_display_roundtrip_def send_def
      dest!: dispatch_globals_keeps
      split: option.splits sum.splits prod.splits if_splits)

subsection \<open>The example inputs\<close>

lemmas ex_defs = ex_params_def ex_hw_def ex_world_def ex_no_plane_def ex_no_object_def ex_no_layer_def
  ex_layer_def ex_desc_def ex_desc2_def ex_rect_def ex_rect_moved_def ex_block_def ex_env_ok_def
  ex_env_second_fails_def

lemmas run_defs = overlay_frame_def layer_loop.simps layer_turn_def plane_loop.simps array_at_def
  zwp_linux_dmabuf_v1_create_params_def zwp_linux_buffer_params_v1_add_def
  zwp_linux_buffer_params_v1_create_def zwp_linux_buffer_params_v1_destroy_def roundtrip_dispatch_def
  param_create_succeeded_def param_create_failed_def wl_display_roundtrip_def wl_surface_attach_def
  wl_surface_commit_def send_def Let_def

lemma ex_hw_ready:
  "dmabuf (hw_priv ex_hw) = Some 5" "wayland_params (hw_priv ex_hw) = Some ex_params"
  "video_surface (hw_priv ex_hw) = Some 7" "7 \<in> surfaces ex_world"
  "video_subsurface (hw_priv ex_hw) = Some 8" "8 \<in> subsurfaces ex_world"
  by (simp_all add: ex_hw_def ex_world_def)

lemma ex_desc_ok: "desc_ok 4 ex_desc"
  by (simp add: desc_ok_def layer_ok_def ex_defs)

lemma ex_desc2_ok: "desc_ok 4 ex_desc2"
  by (simp add: desc_ok_def layer_ok_def ex_defs)

lemma ex_img: "img_planes0 \<lparr>img_planes0 = Some desc\<rparr> = Some desc"
  by simp

lemma ex_env_ok_replies:
  "\<forall>i<n. malloc_ret ex_env_ok i \<noteq> None \<and> create_reply ex_env_ok i = Created ((\<lambda>l. 100 + l) i)"
  by (simp add: ex_env_ok_def)

lemma ex_request_planes:
  "request_planes 4 ex_desc (layers ex_desc ! 0) =
     [\<lparr>plane_fd = 5, plane_idx = 0, plane_offset = 0, plane_stride = 1920, modifier_hi = 0, modifier_lo = 0\<rparr>,
      \<lparr>plane_fd = 5, plane_idx = 1, plane_offset = 3072000, plane_stride = 960, modifier_hi = 0, modifier_lo = 0\<rparr>]"
proof -
  have slots: "[0..<4] = [0, 1, 2, 3]"
    by (simp add: numeral_eq_Suc)
  show ?thesis
    by (simp add: request_planes_def plane_args_def plane_present_def ex_defs slots)
qed

lemma ex_layers_counted:
  "nat (nb_layers ex_desc) = Suc 0"
  "layers_accepted ex_env_ok (Suc 0) = Suc 0"
  "layers_submitted ex_env_ok (Suc 0) = Suc 0"
  by (simp_all add: layers_submitted_def layers_accepted_def layer_accepted_def ex_env_ok_def ex_desc_def)

lemma ex_undeclared_plane_is_added:
  "map_sum id (\<lambda>(ret, w'). (ret, map (map plane_idx) (params_objects (issued ex_world w'))))
     (overlay_frame 4 ex_hw (Some \<lparr>img_planes0 = Some (with_nb_planes [1, 0, 0, 0] ex_desc)\<rparr>)
        (Some ex_rect) None True ex_env_ok ex_world)
     = Inr (0, [[0, 1]])
   \<and> nb_planes (layers (with_nb_planes [1, 0, 0, 0] ex_desc) ! 0) = 1"
  by (simp add: run_defs ex_defs with_nb_planes_def issued_def params_objects_def note_request_def)

lemma ex_init_subsurface_failure:
  "map_sum id (\<lambda>(ret, hw', w'). (ret, video_surface (hw_priv hw'), surfaces w', subsurfaces w'))
     (init ex_hw_fresh ex_init_env_no_subsurface ex_world_fresh)
     = Inr (- 1, Some 7, {}, {})"
  by (simp add: init_def init_err_def uninit_def priv_zero_def Let_def
      wl_compositor_create_surface_def wl_subcompositor_get_subsurface_def wl_subsurface_place_below_def
      wl_surface_destroy_def wl_display_roundtrip_def send_def registry_handle_add_def wl_registry_bind_def
      ex_hw_fresh_def ex_world_fresh_def ex_init_env_no_subsurface_def ex_init_env_no_params_def ex_params_def)

lemma ex_uninit_after_failed_init:
  "(case init ex_hw_fresh ex_init_env_no_subsurface ex_world_fresh of
      Inl f \<Rightarrow> Inl f
    | Inr (ret, hw', w') \<Rightarrow> uninit hw' w') = Inl Use_after_free"
  by (simp add: init_def init_err_def uninit_def priv_zero_def Let_def
      wl_compositor_create_surface_def wl_subcompositor_get_subsurface_def wl_subsurface_place_below_def
      wl_surface_destroy_def wl_display_roundtrip_def send_def registry_handle_add_def wl_registry_bind_def
      ex_hw_fresh_def ex_world_fresh_def ex_init_env_no_subsurface_def ex_init_env_no_params_def ex_params_def)

section \<open>Properties\<close>

text \<open>C1, as amended. A frame is handed off and the server rejects the buffer of layer \<open>k\<close>,
  after accepting those of the layers before it: \<^verbatim>\<open>overlay_frame\<close> returns -1. The attached
  buffer of the video surface is what it was before the call when \<open>k\<close> is the first layer (so
  always for a single-layer descriptor); otherwise the buffer created for layer \<open>k - 1\<close> stays
  attached and committed. No surface object is created or destroyed.\<close>

theorem overlay_frame_creation_failure:
  assumes "dmabuf (hw_priv hw) = Some d" and "wayland_params (hw_priv hw) = Some wp"
    and "video_surface (hw_priv hw) = Some s" and "s \<in> surfaces w"
    and "desc_ok max_planes desc" and "img_planes0 img = Some desc"
    and "int k < nb_layers desc"
    and "\<forall>i<k. malloc_ret env i \<noteq> None \<and> create_reply env i = Created (b i)"
    and "malloc_ret env k \<noteq> None" and "create_reply env k = Failed"
  shows "\<exists>w'. overlay_frame max_planes hw (Some img) (Some r) dst newframe env w = Inr (- 1, w')
           \<and> attached w' s = (if k = 0 then attached w s else (Some (b (k - 1)), Some (b (k - 1))))
           \<and> surfaces w' = surfaces w \<and> subsurfaces w' = subsurfaces w"
proof -
  let ?w' = "world_after w (accepted_prefix max_planes d wp s r desc b k
                                   @ begin_requests max_planes d desc (layers desc ! k)
                                   @ submit_requests max_planes wp r desc (layers desc ! k)) s
                     (map b [0..<k])"
  have run: "overlay_frame max_planes hw (Some img) (Some r) dst newframe env w = Inr (- 1, ?w')"
    using assms(6) layer_loop_rejected [OF assms(1-5,7-10), of r]
    by (simp add: overlay_frame_def)
  have last_b: "last (map b [0..<k]) = b (k - 1)" if "0 < k"
    using that by (simp add: last_map)
  show ?thesis
    apply (rule exI [of _ ?w'])
    using run last_b by (simp add: attached_world_after)
qed

theorem overlay_frame_creation_failure_witness:
  "dmabuf (hw_priv ex_hw) = Some 5 \<and> wayland_params (hw_priv ex_hw) = Some ex_params
   \<and> video_surface (hw_priv ex_hw) = Some 7 \<and> 7 \<in> surfaces ex_world
   \<and> desc_ok 4 ex_desc2 \<and> int 1 < nb_layers ex_desc2
   \<and> malloc_ret ex_env_second_fails 0 \<noteq> None \<and> create_reply ex_env_second_fails 0 = Created 100
   \<and> malloc_ret ex_env_second_fails 1 \<noteq> None \<and> create_reply ex_env_second_fails 1 = Failed
   \<and> (\<exists>w'. overlay_frame 4 ex_hw (Some \<lparr>img_planes0 = Some ex_desc2\<rparr>) (Some ex_rect) None True
               ex_env_second_fails ex_world = Inr (- 1, w')
           \<and> attached w' 7 = (Some 100, Some 100)
           \<and> surfaces w' = surfaces ex_world \<and> subsurfaces w' = subsurfaces ex_world)"
proof -
  have layers: "int 1 < nb_layers ex_desc2"
    by (simp add: ex_desc2_def)
  have before: "\<forall>i<1. malloc_ret ex_env_second_fails i \<noteq> None
                  \<and> create_reply ex_env_second_fails i = Created ((\<lambda>l. 100 + l) i)"
    by (simp add: ex_env_second_fails_def)
  have at: "malloc_ret ex_env_second_fails 1 \<noteq> None" "create_reply ex_env_second_fails 1 = Failed"
    by (simp_all add: ex_env_second_fails_def)
  show ?thesis
    using overlay_frame_creation_failure [OF ex_hw_ready(1-4) ex_desc2_ok ex_img layers before at,
        of ex_rect None True]
      ex_hw_ready ex_desc2_ok layers before at
    by simp
qed

text \<open>C1 as it was stated fails on a two-layer frame whose second buffer the server
  rejects: the call returns -1, and the surface that showed buffer 50 now has buffer 100, the
  first layer's, attached and committed.\<close>

theorem overlay_frame_failure_changes_attached_buffer:
  "result_attached 7
     (overlay_frame 4 ex_hw (Some \<lparr>img_planes0 = Some ex_desc2\<rparr>) (Some ex_rect) None True
        ex_env_second_fails ex_world)
     = Some (- 1, Some 100, Some 100)
   \<and> attached ex_world 7 = (Some 50, Some 50)"
  by (simp add: result_attached_def attached_def run_defs ex_defs)

text \<open>C2. Tearing down twice, on a driver whose surface and subsurface exist: the first
  \<^verbatim>\<open>uninit\<close> destroys both and leaves both pointers set, so the second one passes the two
  \<^verbatim>\<open>NULL\<close> guards and destroys the surface again, a use of a freed object.\<close>

theorem uninit_twice_destroys_again:
  assumes "video_surface (hw_priv hw) = Some s" and "s \<in> surfaces w"
    and "video_subsurface (hw_priv hw) = Some ss" and "ss \<in> subsurfaces w"
    and "wayland_params (hw_priv hw) = Some wp"
  shows "\<exists>w1. uninit hw w = Inr w1 \<and> s \<notin> surfaces w1 \<and> ss \<notin> subsurfaces w1
           \<and> uninit hw w1 = Inl Use_after_free"
  using assms
  by (simp add: uninit_def wl_surface_destroy_def wl_subsurface_destroy_def wl_display_roundtrip_def send_def)

theorem uninit_twice_destroys_again_witness:
  "video_surface (hw_priv ex_hw) = Some 7 \<and> 7 \<in> surfaces ex_world
   \<and> video_subsurface (hw_priv ex_hw) = Some 8 \<and> 8 \<in> subsurfaces ex_world
   \<and> wayland_params (hw_priv ex_hw) = Some ex_params
   \<and> (\<exists>w1. uninit ex_hw ex_world = Inr w1 \<and> 7 \<notin> surfaces w1 \<and> 8 \<notin> subsurfaces w1
           \<and> uninit ex_hw w1 = Inl Use_after_free)"
  using uninit_twice_destroys_again [OF ex_hw_ready(3,4,5,6,2)] ex_hw_ready
  by simp

text \<open>C3. \<^verbatim>\<open>init\<close> without the interop parameters (no GL context, or no native display
  for it): the error path calls \<^verbatim>\<open>uninit\<close>, which reads
  \<^verbatim>\<open>p->wayland_params->display\<close> through the \<^verbatim>\<open>NULL\<close> pointer. Whatever the driver
  state was, the call faults and never returns -1; on the zeroed state the host provides
  (no surface, no subsurface) the fault is that \<^verbatim>\<open>NULL\<close> dereference.\<close>

theorem init_without_interop_params_faults:
  assumes "gl_ret env = None \<or> native_display_ret env = None"
  shows "(\<exists>f. init hw env w = Inl f)
         \<and> (video_surface (hw_priv hw) = None \<and> video_subsurface (hw_priv hw) = None
              \<longrightarrow> init hw env w = Inl Null_deref)"
proof -
  let ?p0 = "(hw_priv hw)\<lparr>plog := hw_log hw, wayland_params := None\<rparr>"
  have start: "init hw env w = init_err (hw\<lparr>hw_priv := ?p0\<rparr>) w"
    using assms by (auto simp: init_def split: option.splits)
  have "\<exists>f. uninit (hw\<lparr>hw_priv := ?p0\<rparr>) w = Inl f"
    by (auto simp: uninit_def Let_def split: option.splits sum.splits)
  then have faults: "\<exists>f. init hw env w = Inl f"
    by (auto simp: start init_err_def)
  have zeroed: "init hw env w = Inl Null_deref"
    if "video_surface (hw_priv hw) = None" and "video_subsurface (hw_priv hw) = None"
    using that by (simp add: start init_err_def uninit_def)
  from faults zeroed show ?thesis by blast
qed

theorem init_without_interop_params_faults_witness:
  "(gl_ret ex_init_env_no_params = None \<or> native_display_ret ex_init_env_no_params = None)
   \<and> video_surface (hw_priv ex_hw_fresh) = None \<and> video_subsurface (hw_priv ex_hw_fresh) = None
   \<and> init ex_hw_fresh ex_init_env_no_params ex_world_fresh = Inl Null_deref"
proof -
  have h1: "gl_ret ex_init_env_no_params = None \<or> native_display_ret ex_init_env_no_params = None"
    by (simp add: ex_init_env_no_params_def)
  have h2: "video_surface (hw_priv ex_hw_fresh) = None" "video_subsurface (hw_priv ex_hw_fresh) = None"
    by (simp_all add: ex_hw_fresh_def priv_zero_def)
  show ?thesis
    using init_without_interop_params_faults [OF h1, of ex_hw_fresh ex_world_fresh] h1 h2 by simp
qed

text \<open>C4. The skip rule. For a well-formed descriptor, the call creates one params object
  per layer it reaches (\<open>k\<close> of them, all layers when it returns 0), and the planes added to
  the object of layer \<open>l\<close> are exactly the slots below \<open>max_planes\<close> whose descriptor and
  stride are both non-zero, in slot order: a slot with descriptor 0 or stride 0 is never
  added, every other slot is.\<close>

theorem overlay_frame_plane_skip_rule:
  assumes "dmabuf (hw_priv hw) = Some d" and "wayland_params (hw_priv hw) = Some wp"
    and "video_surface (hw_priv hw) = Some s" and "s \<in> surfaces w"
    and "desc_ok max_planes desc" and "img_planes0 img = Some desc"
  shows "\<exists>ret w' k. overlay_frame max_planes hw (Some img) (Some r) dst newframe env w = Inr (ret, w')
           \<and> k \<le> nat (nb_layers desc) \<and> (ret = 0 \<longrightarrow> k = nat (nb_layers desc))
           \<and> (0 < nb_layers desc \<longrightarrow> 0 < k)
           \<and> params_objects (issued w w')
                = map (\<lambda>l. request_planes max_planes desc (layers desc ! l)) [0..<k]
           \<and> (\<forall>l<k. \<forall>i<max_planes.
                 (\<exists>e\<in>set (params_objects (issued w w') ! l). plane_idx e = i) \<longleftrightarrow>
                 fd (objects desc ! nat (object_index (planes (layers desc ! l) ! i))) \<noteq> 0
                   \<and> pitch (planes (layers desc ! l) ! i) \<noteq> 0)"
proof -
  from overlay_frame_params_objects [OF assms, of r dst newframe env]
  obtain ret w' k where run: "overlay_frame max_planes hw (Some img) (Some r) dst newframe env w = Inr (ret, w')"
    and k: "k \<le> nat (nb_layers desc)" "ret = 0 \<longrightarrow> k = nat (nb_layers desc)" "0 < nb_layers desc \<longrightarrow> 0 < k"
    and objs: "params_objects (issued w w')
                = map (\<lambda>l. request_planes max_planes desc (layers desc ! l)) [0..<k]"
    by blast
  have slots: "\<forall>l<k. \<forall>i<max_planes.
                 (\<exists>e\<in>set (params_objects (issued w w') ! l). plane_idx e = i) \<longleftrightarrow>
                 fd (objects desc ! nat (object_index (planes (layers desc ! l) ! i))) \<noteq> 0
                   \<and> pitch (planes (layers desc ! l) ! i) \<noteq> 0"
    using skip_rule_slots [OF objs] by blast
  show ?thesis
    apply (rule exI [of _ ret], rule exI [of _ w'], rule exI [of _ k])
    using run k objs slots by simp
qed

theorem overlay_frame_plane_skip_rule_witness:
  "dmabuf (hw_priv ex_hw) = Some 5 \<and> wayland_params (hw_priv ex_hw) = Some ex_params
   \<and> video_surface (hw_priv ex_hw) = Some 7 \<and> 7 \<in> surfaces ex_world \<and> desc_ok 4 ex_desc
   \<and> (\<exists>ret w' k. overlay_frame 4 ex_hw (Some \<lparr>img_planes0 = Some ex_desc\<rparr>) (Some ex_rect) None True
                     ex_env_ok ex_world = Inr (ret, w')
           \<and> k \<le> nat (nb_layers ex_desc) \<and> (ret = 0 \<longrightarrow> k = nat (nb_layers ex_desc))
           \<and> (0 < nb_layers ex_desc \<longrightarrow> 0 < k)
           \<and> params_objects (issued ex_world w')
                = map (\<lambda>l. request_planes 4 ex_desc (layers ex_desc ! l)) [0..<k]
           \<and> (\<forall>l<k. \<forall>i<4.
                 (\<exists>e\<in>set (params_objects (issued ex_world w') ! l). plane_idx e = i) \<longleftrightarrow>
                 fd (objects ex_desc ! nat (object_index (planes (layers ex_desc ! l) ! i))) \<noteq> 0
                   \<and> pitch (planes (layers ex_desc ! l) ! i) \<noteq> 0))"
  using overlay_frame_plane_skip_rule [OF ex_hw_ready(1-4) ex_desc_ok ex_img, of ex_rect None True ex_env_ok]
    ex_hw_ready ex_desc_ok
  by simp

text \<open>C5. With \<open>n\<close> layers in a well-formed descriptor, the call returns 0 when all
  \<open>n\<close> layers are accepted and -1 otherwise, and it submits one buffer request for each
  layer up to and including the first one the server rejects (none for a layer whose block
  could not be allocated). The requests follow the layers in order, and each has the width
  and height of the source crop rectangle (\<open>x1 - x0\<close> and \<open>y1 - y0\<close>), the pixel format of
  its layer, flags 0 and the layer's present planes. Every plane the call adds has both
  modifier halves 0.\<close>

theorem overlay_frame_request_dimensions:
  assumes "dmabuf (hw_priv hw) = Some d" and "wayland_params (hw_priv hw) = Some wp"
    and "video_surface (hw_priv hw) = Some s" and "s \<in> surfaces w"
    and "desc_ok max_planes desc" and "img_planes0 img = Some desc"
  shows "\<exists>w'. overlay_frame max_planes hw (Some img) (Some r) dst newframe env w
               = Inr (if layers_accepted env (nat (nb_layers desc)) = nat (nb_layers desc) then 0 else - 1, w')
           \<and> submitted (issued w w')
                = map (\<lambda>l. \<lparr>req_planes = request_planes max_planes desc (layers desc ! l),
                             req_width = x1 r - x0 r, req_height = y1 r - y0 r,
                             req_format = format (layers desc ! l), req_flags = 0\<rparr>)
                    [0..<layers_submitted env (nat (nb_layers desc))]
           \<and> (\<forall>e\<in>set (added (issued w w')). modifier_hi e = 0 \<and> modifier_lo e = 0)"
proof -
  let ?n = "nat (nb_layers desc)"
  have concl: ?thesis
    if "overlay_frame max_planes hw (Some img) (Some r) dst newframe env w = Inr (ret, world_after w rs s bs)"
      and "ret = (if layers_accepted env ?n = ?n then 0 else - 1)"
      and "submitted rs
                = map (\<lambda>l. \<lparr>req_planes = request_planes max_planes desc (layers desc ! l),
                             req_width = x1 r - x0 r, req_height = y1 r - y0 r,
                             req_format = format (layers desc ! l), req_flags = 0\<rparr>)
                    [0..<layers_submitted env ?n]"
      and "\<forall>e\<in>set (added rs). modifier_hi e = 0 \<and> modifier_lo e = 0"
    for ret rs bs
    apply (rule exI [of _ "world_after w rs s bs"])
    using that by simp
  from assms show ?thesis
  proof (cases rule: overlay_frame_run [where env = env and r = r and dst = dst and newframe = newframe])
    case (all b)
    have acc: "layers_accepted env ?n = ?n"
      by (rule layers_accepted_all [OF all(1)])
    have sub: "layers_submitted env ?n = ?n"
      by (simp add: layers_submitted_def acc)
    show ?thesis
      using added_prefix_modifier
      by (intro concl [OF all(2)]) (auto simp: acc sub submitted_prefix)
  next
    case (rejected k b)
    from rejected(1) have kn: "k < ?n" by linarith
    have acc: "layers_accepted env ?n = k"
      by (rule layers_accepted_stop [OF kn rejected(2)]) (simp add: layer_accepted_def rejected(4))
    have sub: "layers_submitted env ?n = Suc k"
      using kn rejected(3) by (simp add: layers_submitted_def acc)
    show ?thesis
      using kn added_rejected_modifier [where rest = "submit_requests max_planes wp r desc (layers desc ! k)"]
      by (intro concl [OF rejected(5)])
         (auto simp: acc sub submitted_append submitted_prefix submitted_begin submitted_submit added_submit)
  next
    case (oom k b)
    from oom(1) have kn: "k < ?n" by linarith
    have acc: "layers_accepted env ?n = k"
      by (rule layers_accepted_stop [OF kn oom(2)]) (simp add: layer_accepted_def oom(3))
    have sub: "layers_submitted env ?n = k"
      using kn oom(3) by (simp add: layers_submitted_def acc)
    show ?thesis
      using kn added_rejected_modifier [where rest = "[]"]
      by (intro concl [OF oom(4)])
         (auto simp: acc sub submitted_append submitted_prefix submitted_begin)
  qed
qed

theorem overlay_frame_request_dimensions_witness:
  "dmabuf (hw_priv ex_hw) = Some 5 \<and> wayland_params (hw_priv ex_hw) = Some ex_params
   \<and> video_surface (hw_priv ex_hw) = Some 7 \<and> 7 \<in> surfaces ex_world \<and> desc_ok 4 ex_desc
   \<and> (\<exists>w'. overlay_frame 4 ex_hw (Some \<lparr>img_planes0 = Some ex_desc\<rparr>) (Some ex_rect) None True
               ex_env_ok ex_world = Inr (0, w')
           \<and> submitted (issued ex_world w')
                = [\<lparr>req_planes =
                      [\<lparr>plane_fd = 5, plane_idx = 0, plane_offset = 0, plane_stride = 1920,
                         modifier_hi = 0, modifier_lo = 0\<rparr>,
                       \<lparr>plane_fd = 5, plane_idx = 1, plane_offset = 3072000, plane_stride = 960,
                         modifier_hi = 0, modifier_lo = 0\<rparr>],
                    req_width = 1920, req_height = 1080, req_format = 842094158, req_flags = 0\<rparr>]
           \<and> (\<forall>e\<in>set (added (issued ex_world w')). modifier_hi e = 0 \<and> modifier_lo e = 0))"
proof -
  have layer: "format (layers ex_desc ! 0) = 842094158"
    by (simp add: ex_desc_def ex_layer_def)
  have rect: "x1 ex_rect - x0 ex_rect = 1920" "y1 ex_rect - y0 ex_rect = 1080"
    by (simp_all add: ex_rect_def)
  show ?thesis
    using overlay_frame_request_dimensions [OF ex_hw_ready(1-4) ex_desc_ok ex_img,
        of ex_rect None True ex_env_ok]
      ex_hw_ready ex_desc_ok
    by (simp add: ex_layers_counted ex_request_planes layer rect)
qed

text \<open>C6. A call without a frame, from any state in which the video surface exists: a
  \<^verbatim>\<open>NULL\<close> buffer is attached and committed, nothing else is sent, no buffer is attached
  afterwards, and the call returns 0.\<close>

theorem overlay_frame_null_frame:
  assumes "video_surface (hw_priv hw) = Some s" and "s \<in> surfaces w"
  shows "\<exists>w'. overlay_frame max_planes hw None src dst newframe env w = Inr (0, w')
           \<and> attached w' s = (None, None)
           \<and> issued w w' = [Surface_attach s None 0 0, Surface_commit s]"
  using assms
  by (simp add: overlay_frame_def wl_surface_attach_def wl_surface_commit_def send_def attached_def issued_def)

theorem overlay_frame_null_frame_witness:
  "video_surface (hw_priv ex_hw) = Some 7 \<and> 7 \<in> surfaces ex_world
   \<and> attached ex_world 7 = (Some 50, Some 50)
   \<and> (\<exists>w'. overlay_frame 4 ex_hw None (Some ex_rect) None True ex_env_ok ex_world = Inr (0, w')
           \<and> attached w' 7 = (None, None)
           \<and> issued ex_world w' = [Surface_attach 7 None 0 0, Surface_commit 7])"
proof -
  have before: "attached ex_world 7 = (Some 50, Some 50)"
    by (simp add: attached_def ex_world_def)
  show ?thesis
    using overlay_frame_null_frame [OF ex_hw_ready(3,4), of 4 "Some ex_rect" None True ex_env_ok]
      ex_hw_ready before
    by simp
qed

text \<open>C7. A frame of \<open>n\<close> layers, all of whose buffers are created: the call returns 0
  after issuing, layer by layer, one buffer request and one round-trip followed by the attach
  and the commit of the buffer created; so there are \<open>n\<close> round-trips, and the buffer of the
  last layer is the one attached and committed at the end.\<close>

theorem overlay_frame_all_layers:
  assumes "dmabuf (hw_priv hw) = Some d" and "wayland_params (hw_priv hw) = Some wp"
    and "video_surface (hw_priv hw) = Some s" and "s \<in> surfaces w"
    and "desc_ok max_planes desc" and "img_planes0 img = Some desc"
    and "n = nat (nb_layers desc)"
    and "\<forall>i<n. malloc_ret env i \<noteq> None \<and> create_reply env i = Created (b i)"
  shows "\<exists>w'. overlay_frame max_planes hw (Some img) (Some r) dst newframe env w = Inr (0, w')
           \<and> issued w w'
                = concat (map (\<lambda>l. accepted_requests max_planes d wp s r desc (layers desc ! l) (b l)) [0..<n])
           \<and> round_trips (issued w w') = n
           \<and> length (submitted (issued w w')) = n
           \<and> surface_requests (issued w w')
                = concat (map (\<lambda>l. [Surface_attach s (Some (b l)) 0 0, Surface_commit s]) [0..<n])
           \<and> (0 < n \<longrightarrow> attached w' s = (Some (b (n - 1)), Some (b (n - 1))))"
proof -
  let ?w' = "world_after w (accepted_prefix max_planes d wp s r desc b n) s (map b [0..<n])"
  have run: "overlay_frame max_planes hw (Some img) (Some r) dst newframe env w = Inr (0, ?w')"
    using assms(6,7) layer_loop_all_accepted [OF assms(1-5), of env b r] assms(8)
    by (simp add: overlay_frame_def)
  have last_b: "last (map b [0..<n]) = b (n - 1)" if "0 < n"
    using that by (simp add: last_map)
  show ?thesis
    apply (rule exI [of _ ?w'])
    using run last_b
    by (simp add: round_trips_prefix submitted_prefix surface_requests_prefix attached_world_after)
       (simp add: accepted_prefix_def)
qed

theorem overlay_frame_all_layers_witness:
  "dmabuf (hw_priv ex_hw) = Some 5 \<and> wayland_params (hw_priv ex_hw) = Some ex_params
   \<and> video_surface (hw_priv ex_hw) = Some 7 \<and> 7 \<in> surfaces ex_world \<and> desc_ok 4 ex_desc2
   \<and> 2 = nat (nb_layers ex_desc2)
   \<and> malloc_ret ex_env_ok 0 \<noteq> None \<and> create_reply ex_env_ok 0 = Created 100
   \<and> malloc_ret ex_env_ok 1 \<noteq> None \<and> create_reply ex_env_ok 1 = Created 101
   \<and> (\<exists>w'. overlay_frame 4 ex_hw (Some \<lparr>img_planes0 = Some ex_desc2\<rparr>) (Some ex_rect) None True
               ex_env_ok ex_world = Inr (0, w')
           \<and> round_trips (issued ex_world w') = 2
           \<and> surface_requests (issued ex_world w')
                = [Surface_attach 7 (Some 100) 0 0, Surface_commit 7,
                   Surface_attach 7 (Some 101) 0 0, Surface_commit 7]
           \<and> attached w' 7 = (Some 101, Some 101))"
proof -
  have n: "2 = nat (nb_layers ex_desc2)"
    by (simp add: ex_desc2_def)
  have replies: "malloc_ret ex_env_ok 0 \<noteq> None" "create_reply ex_env_ok 0 = Created 100"
      "malloc_ret ex_env_ok 1 \<noteq> None" "create_reply ex_env_ok 1 = Created 101"
    by (simp_all add: ex_env_ok_def)
  have upt2: "[0..<2] = [0, Suc 0]"
    by (simp add: upt_rec numeral_2_eq_2)
  show ?thesis
    using overlay_frame_all_layers [OF ex_hw_ready(1-4) ex_desc2_ok ex_img n ex_env_ok_replies,
        of ex_rect None True]
      ex_hw_ready ex_desc2_ok n replies
    by (auto simp: upt2)
qed

text \<open>C8. Two calls with the same driver state, frame, environment and world, whose source
  rectangles have the same width and height: whatever the two destination rectangles, the
  positions of the source rectangles and the new-frame flags are, both calls have the same
  outcome, return value and world (so the same requests, in the same order).\<close>

theorem overlay_frame_dst_unused:
  assumes "x1 r - x0 r = x1 r' - x0 r'" and "y1 r - y0 r = y1 r' - y0 r'"
  shows "overlay_frame max_planes hw hw_image (Some r) dst newframe env w
       = overlay_frame max_planes hw hw_image (Some r') dst' newframe' env w"
proof (cases hw_image)
  case None
  then show ?thesis by (simp add: overlay_frame_def)
next
  case (Some img)
  then show ?thesis
    by (cases "img_planes0 img") (simp_all add: overlay_frame_def layer_loop_src [OF assms])
qed

theorem overlay_frame_dst_unused_witness:
  "x1 ex_rect - x0 ex_rect = x1 ex_rect_moved - x0 ex_rect_moved
   \<and> y1 ex_rect - y0 ex_rect = y1 ex_rect_moved - y0 ex_rect_moved
   \<and> overlay_frame 4 ex_hw (Some \<lparr>img_planes0 = Some ex_desc\<rparr>) (Some ex_rect) (Some ex_rect) True
        ex_env_ok ex_world
     = overlay_frame 4 ex_hw (Some \<lparr>img_planes0 = Some ex_desc\<rparr>) (Some ex_rect_moved) None False
        ex_env_ok ex_world"
proof -
  have h1: "x1 ex_rect - x0 ex_rect = x1 ex_rect_moved - x0 ex_rect_moved"
    by (simp add: ex_rect_def ex_rect_moved_def)
  have h2: "y1 ex_rect - y0 ex_rect = y1 ex_rect_moved - y0 ex_rect_moved"
    by (simp add: ex_rect_def ex_rect_moved_def)
  show ?thesis
    using overlay_frame_dst_unused [OF h1 h2] h1 h2 by blast
qed

text \<open>C9. A frame whose descriptor pointer \<^verbatim>\<open>hw_image->planes[0]\<close> is \<^verbatim>\<open>NULL\<close>:
  the call issues no request at all (no buffer request, attach, commit or round-trip),
  leaves the whole protocol state as it was, and returns 0.\<close>

theorem overlay_frame_null_descriptor:
  "overlay_frame max_planes hw (Some (img\<lparr>img_planes0 := None\<rparr>)) src dst newframe env w = Inr (0, w)"
  by (simp add: overlay_frame_def)

theorem overlay_frame_null_descriptor_witness:
  "overlay_frame 4 ex_hw (Some \<lparr>img_planes0 = None\<rparr>) (Some ex_rect) None True ex_env_ok ex_world
     = Inr (0, ex_world)"
  using overlay_frame_null_descriptor [of 4 ex_hw "\<lparr>img_planes0 = Some ex_desc\<rparr>" "Some ex_rect" None True
      ex_env_ok ex_world]
  by simp

text \<open>C10. The declared plane count of a layer plays no part. Replacing the
  \<^verbatim>\<open>nb_planes\<close> of every layer by any other numbers changes nothing in the outcome of the
  call; and a slot at or beyond the declared count, like every slot below \<open>max_planes\<close>, is
  among the planes added for its layer exactly when its descriptor and its stride are
  non-zero.\<close>

theorem overlay_frame_ignores_nb_planes:
  assumes "dmabuf (hw_priv hw) = Some d" and "wayland_params (hw_priv hw) = Some wp"
    and "video_surface (hw_priv hw) = Some s" and "s \<in> surfaces w"
    and "desc_ok max_planes desc" and "img_planes0 img = Some desc"
    and "length counts = length (layers desc)"
  shows "overlay_frame max_planes hw (Some (img\<lparr>img_planes0 := Some (with_nb_planes counts desc)\<rparr>))
              (Some r) dst newframe env w
           = overlay_frame max_planes hw (Some img) (Some r) dst newframe env w
         \<and> (\<exists>ret w' k. overlay_frame max_planes hw (Some img) (Some r) dst newframe env w = Inr (ret, w')
               \<and> (0 < nb_layers desc \<longrightarrow> 0 < k)
               \<and> length (params_objects (issued w w')) = k
               \<and> (\<forall>l<k. \<forall>i<max_planes. nb_planes (layers desc ! l) \<le> int i \<longrightarrow>
                     ((\<exists>e\<in>set (params_objects (issued w w') ! l). plane_idx e = i) \<longleftrightarrow>
                      fd (objects desc ! nat (object_index (planes (layers desc ! l) ! i))) \<noteq> 0
                        \<and> pitch (planes (layers desc ! l) ! i) \<noteq> 0)))"
proof
  have same: "img\<lparr>img_planes0 := Some desc\<rparr> = img"
    using assms(6) by simp
  show "overlay_frame max_planes hw (Some (img\<lparr>img_planes0 := Some (with_nb_planes counts desc)\<rparr>))
              (Some r) dst newframe env w
           = overlay_frame max_planes hw (Some img) (Some r) dst newframe env w"
    using overlay_frame_nb_planes [OF assms(7), of max_planes hw img "Some r" dst newframe env w]
    by (simp add: same)
next
  from overlay_frame_params_objects [OF assms(1-6), of r dst newframe env]
  obtain ret w' k where run: "overlay_frame max_planes hw (Some img) (Some r) dst newframe env w = Inr (ret, w')"
    and k: "0 < nb_layers desc \<longrightarrow> 0 < k"
    and objs: "params_objects (issued w w')
                = map (\<lambda>l. request_planes max_planes desc (layers desc ! l)) [0..<k]"
    by blast
  have len: "length (params_objects (issued w w')) = k"
    by (simp add: objs)
  have slots: "\<forall>l<k. \<forall>i<max_planes.
                 (\<exists>e\<in>set (params_objects (issued w w') ! l). plane_idx e = i) \<longleftrightarrow>
                 fd (objects desc ! nat (object_index (planes (layers desc ! l) ! i))) \<noteq> 0
                   \<and> pitch (planes (layers desc ! l) ! i) \<noteq> 0"
    using skip_rule_slots [OF objs] by blast
  show "\<exists>ret w' k. overlay_frame max_planes hw (Some img) (Some r) dst newframe env w = Inr (ret, w')
               \<and> (0 < nb_layers desc \<longrightarrow> 0 < k)
               \<and> length (params_objects (issued w w')) = k
               \<and> (\<forall>l<k. \<forall>i<max_planes. nb_planes (layers desc ! l) \<le> int i \<longrightarrow>
                     ((\<exists>e\<in>set (params_objects (issued w w') ! l). plane_idx e = i) \<longleftrightarrow>
                      fd (objects desc ! nat (object_index (planes (layers desc ! l) ! i))) \<noteq> 0
                        \<and> pitch (planes (layers desc ! l) ! i) \<noteq> 0))"
    apply (rule exI [of _ ret], rule exI [of _ w'], rule exI [of _ k])
    using run k len slots by simp
qed

theorem overlay_frame_ignores_nb_planes_witness:
  "dmabuf (hw_priv ex_hw) = Some 5 \<and> wayland_params (hw_priv ex_hw) = Some ex_params
   \<and> video_surface (hw_priv ex_hw) = Some 7 \<and> 7 \<in> surfaces ex_world \<and> desc_ok 4 ex_desc
   \<and> length [1, 0, 0, 0 :: int] = length (layers ex_desc)
   \<and> overlay_frame 4 ex_hw (Some \<lparr>img_planes0 = Some (with_nb_planes [1, 0, 0, 0] ex_desc)\<rparr>)
        (Some ex_rect) None True ex_env_ok ex_world
      = overlay_frame 4 ex_hw (Some \<lparr>img_planes0 = Some ex_desc\<rparr>) (Some ex_rect) None True ex_env_ok ex_world
   \<and> (\<exists>ret w' k. overlay_frame 4 ex_hw (Some \<lparr>img_planes0 = Some ex_desc\<rparr>) (Some ex_rect) None True
                     ex_env_ok ex_world = Inr (ret, w')
         \<and> (0 < nb_layers ex_desc \<longrightarrow> 0 < k)
         \<and> length (params_objects (issued ex_world w')) = k
         \<and> (\<forall>l<k. \<forall>i<4. nb_planes (layers ex_desc ! l) \<le> int i \<longrightarrow>
               ((\<exists>e\<in>set (params_objects (issued ex_world w') ! l). plane_idx e = i) \<longleftrightarrow>
                fd (objects ex_desc ! nat (object_index (planes (layers ex_desc ! l) ! i))) \<noteq> 0
                  \<and> pitch (planes (layers ex_desc ! l) ! i) \<noteq> 0)))"
proof -
  have len: "length [1, 0, 0, 0 :: int] = length (layers ex_desc)"
    by (simp add: ex_desc_def)
  show ?thesis
    using overlay_frame_ignores_nb_planes [OF ex_hw_ready(1-4) ex_desc_ok ex_img len,
        of ex_rect None True ex_env_ok]
      ex_hw_ready ex_desc_ok len
    by simp
qed

end
